theory Spec2Isabelle
  imports Main
begin

section \<open>Records of the todo table\<close>

text \<open>
  A stored row is the object \<^verbatim>\<open>{id, text, vector, timestamp}\<close> that the handlers of the
  main process pass to \<^verbatim>\<open>table.add\<close>. What the handlers hand back to the renderer is
  \<^verbatim>\<open>{id, text, timestamp}\<close> (an item), with a \<^verbatim>\<open>score\<close> added for a search hit.
  The three shapes share their first three fields, so the row and the hit extend the item.
  Vector components are left abstract (\<open>'a\<close>); timestamps are milliseconds since the epoch.
\<close>

record item =
  todo_id :: string
  todo_text :: string
  timestamp :: int

record 'a row = item +
  vector :: "'a list"

record 'd hit = item +
  score :: "'d option"

text \<open>What \<^verbatim>\<open>.select(["id", "text", "timestamp"]).execute()\<close> yields for one row: the three
  selected columns and, for a vector search, the library's \<^verbatim>\<open>_distance\<close>.\<close>

record 'd result_row = item +
  distance :: "'d option"

section \<open>Strings and numbers\<close>

text \<open>
  A JavaScript string is a sequence of UTF-16 code units. The strings of the model are
  over the code units below 256, one \<open>char\<close> each, so \<open>CHR 0xA0\<close> is the no-break
  space U+00A0 and \<open>CHR 0x22\<close> the double quote.

  \<^verbatim>\<open>String.prototype.trim\<close> removes white space and line terminators at both ends. Among
  the code units below 256 these are tab, line feed, vertical tab, form feed, carriage
  return, space and no-break space.
\<close>

definition js_whitespace :: "char \<Rightarrow> bool" where
  "js_whitespace c \<longleftrightarrow>
     c \<in> set [CHR 0x09, CHR 0x0A, CHR 0x0B, CHR 0x0C, CHR 0x0D, CHR '' '', CHR 0xA0]"

definition trim :: "string \<Rightarrow> string" where
  "trim s = rev (dropWhile js_whitespace (rev (dropWhile js_whitespace s)))"

text \<open>\<^verbatim>\<open>Array.prototype.join\<close>.\<close>

fun join :: "string \<Rightarrow> string list \<Rightarrow> string" where
  "join sep [] = []"
| "join sep [x] = x"
| "join sep (x # y # ys) = x @ sep @ join sep (y # ys)"

text \<open>A template literal prints an integral number in decimal, with a minus sign when it is
  negative.\<close>

definition digit_char :: "nat \<Rightarrow> char" where
  "digit_char d = ''0123456789'' ! d"

function string_of_nat :: "nat \<Rightarrow> string" where
  "string_of_nat n =
     (if n < 10 then [digit_char n]
      else string_of_nat (n div 10) @ [digit_char (n mod 10)])"
  by pat_completeness auto
termination
  by (relation "measure (\<lambda>n. n)") auto

declare string_of_nat.simps [simp del]

definition string_of_int :: "int \<Rightarrow> string" where
  "string_of_int n =
     (if n < 0 then CHR ''-'' # string_of_nat (nat (- n)) else string_of_nat (nat n))"

text \<open>Reading decimal digits.\<close>

definition digit_val :: "char \<Rightarrow> nat option" where
  "digit_val c = (let n = (of_char c :: nat) in if 48 \<le> n \<and> n \<le> 57 then Some (n - 48) else None)"

fun number_of :: "nat \<Rightarrow> string \<Rightarrow> nat option" where
  "number_of acc [] = Some acc"
| "number_of acc (c # cs) =
     (case digit_val c of None \<Rightarrow> None | Some d \<Rightarrow> number_of (10 * acc + d) cs)"

section \<open>The table layer\<close>

text \<open>
  The handlers address rows with filter text, which the table parses: \<^verbatim>\<open>id = "<todoId>"\<close>
  for delete and update, \<^verbatim>\<open>timestamp >= <n>\<close> and \<^verbatim>\<open>timestamp <= <n>\<close> joined by
  \<^verbatim>\<open> AND \<close> for search. The id is pasted between the quotes as it is.
\<close>

text \<open>
  Modelled from the spec: the vectordb table is an external library, and section 4.3 gives
  its contract; the predicate is "a simple equality/range predicate over \<^verbatim>\<open>id\<close> or
  \<^verbatim>\<open>timestamp\<close>". The model reads comparisons of one of the two columns with a literal,
  joined by \<^verbatim>\<open>AND\<close> and \<^verbatim>\<open>OR\<close> (\<^verbatim>\<open>AND\<close> binding tighter). Tokens are separated by
  spaces; a string literal runs from a double quote to the next one. A text that does not
  read this way is rejected and the call throws.
\<close>

datatype cond = IdEq string | TsGe int | TsLe int

fun matches :: "cond \<Rightarrow> 'a row \<Rightarrow> bool" where
  "matches (IdEq i) r = (todo_id r = i)"
| "matches (TsGe n) r = (n \<le> timestamp r)"
| "matches (TsLe n) r = (timestamp r \<le> n)"

text \<open>A parsed filter is a disjunction of conjunctions.\<close>

definition matches_where :: "cond list list \<Rightarrow> 'a row \<Rightarrow> bool" where
  "matches_where f r = list_ex (list_all (\<lambda>c. matches c r)) f"

datatype token = TWord string | TStr string

datatype lex_state = Out | InWord string | InStr string

fun lexer :: "lex_state \<Rightarrow> string \<Rightarrow> token list option" where
  "lexer Out [] = Some []"
| "lexer (InWord w) [] = Some [TWord w]"
| "lexer (InStr s) [] = None"
| "lexer Out (c # cs) =
     (if c = CHR '' '' then lexer Out cs
      else if c = CHR 0x22 then lexer (InStr []) cs
      else lexer (InWord [c]) cs)"
| "lexer (InWord w) (c # cs) =
     (if c = CHR '' '' then map_option (Cons (TWord w)) (lexer Out cs)
      else if c = CHR 0x22 then map_option (Cons (TWord w)) (lexer (InStr []) cs)
      else lexer (InWord (w @ [c])) cs)"
| "lexer (InStr s) (c # cs) =
     (if c = CHR 0x22 then map_option (Cons (TStr s)) (lexer Out cs)
      else lexer (InStr (s @ [c])) cs)"

fun split_on :: "token \<Rightarrow> token list \<Rightarrow> token list list" where
  "split_on sep [] = [[]]"
| "split_on sep (t # ts) =
     (if t = sep then [] # split_on sep ts
      else (case split_on sep ts of [] \<Rightarrow> [[t]] | g # gs \<Rightarrow> (t # g) # gs))"

definition parse_int :: "string \<Rightarrow> int option" where
  "parse_int w =
     (case w of
        [] \<Rightarrow> None
      | c # ds \<Rightarrow>
          if c = CHR ''-''
          then (if ds = [] then None else map_option (\<lambda>n. - int n) (number_of 0 ds))
          else map_option int (number_of 0 w))"

fun parse_cmp :: "token list \<Rightarrow> cond option" where
  "parse_cmp [TWord col, TWord opr, TStr s] =
     (if col = ''id'' \<and> opr = ''='' then Some (IdEq s) else None)"
| "parse_cmp [TWord col, TWord opr, TWord w] =
     (if col = ''timestamp'' \<and> opr = ''>='' then map_option TsGe (parse_int w)
      else if col = ''timestamp'' \<and> opr = ''<='' then map_option TsLe (parse_int w)
      else None)"
| "parse_cmp ts = None"

definition parse_where :: "string \<Rightarrow> cond list list option" where
  "parse_where s =
     (case lexer Out s of
        None \<Rightarrow> None
      | Some ts \<Rightarrow>
          those (map (\<lambda>conj. those (map parse_cmp (split_on (TWord ''AND'') conj)))
                   (split_on (TWord ''OR'') ts)))"

text \<open>The message of the error the table throws at a filter it cannot read. Its wording is
  the library's; the model fixes one.\<close>

definition invalid_filter :: string where
  "invalid_filter = ''invalid filter''"

text \<open>
  Every call of the table may throw: a result is the error message on the left or the
  value on the right. The table is the list of its live rows in insertion order.
\<close>

text \<open>
  Modelled from the spec: \<^verbatim>\<open>append(records)\<close> adds the records and enforces no uniqueness.
  The model's table accepts every record.
\<close>

definition tbl_add :: "'a row list \<Rightarrow> 'a row list \<Rightarrow> string + 'a row list" where
  "tbl_add rows new = Inr (rows @ new)"

text \<open>Modelled from the spec: \<^verbatim>\<open>deleteWhere(predicate)\<close> removes all records matching the
  predicate; deleting a non-existent id is a no-op, not an error.\<close>

definition tbl_delete :: "'a row list \<Rightarrow> string \<Rightarrow> string + 'a row list" where
  "tbl_delete rows f =
     (case parse_where f of
        None \<Rightarrow> Inl invalid_filter
      | Some p \<Rightarrow> Inr (filter (\<lambda>r. \<not> matches_where p r) rows))"

text \<open>A query under construction: \<^verbatim>\<open>table.search(v)\<close> starts one (with no vector for a
  plain scan), \<^verbatim>\<open>.where\<close> and \<^verbatim>\<open>.limit\<close> refine it. The library's default limit is 10.\<close>

record 'a lance_query =
  qvector :: "'a list option"
  qwhere :: "string option"
  qlimit :: nat

definition tbl_search :: "'a list option \<Rightarrow> 'a lance_query" where
  "tbl_search v = \<lparr>qvector = v, qwhere = None, qlimit = 10\<rparr>"

definition q_where :: "string \<Rightarrow> 'a lance_query \<Rightarrow> 'a lance_query" where
  "q_where f q = q\<lparr>qwhere := Some f\<rparr>"

definition q_limit :: "nat \<Rightarrow> 'a lance_query \<Rightarrow> 'a lance_query" where
  "q_limit n q = q\<lparr>qlimit := n\<rparr>"

definition select_cols :: "'d option \<Rightarrow> 'a row \<Rightarrow> 'd result_row" where
  "select_cols d r =
     \<lparr>todo_id = todo_id r, todo_text = todo_text r, timestamp = timestamp r, distance = d\<rparr>"

text \<open>Modelled from the spec: \<^verbatim>\<open>scanAll(limit)\<close> returns up to \<open>limit\<close> records with no
  ranking, in an order the table layer leaves unspecified (the model takes insertion order,
  which is what the comment in the get-todos handler expects);
  \<^verbatim>\<open>searchNearest(queryVector, limit, optionalPredicate)\<close> returns the \<open>limit\<close> records
  whose vector has smallest distance to the query vector among the records satisfying the
  predicate, ascending by distance. The metric \<open>dist\<close> is fixed for the table's lifetime
  and is a parameter here.\<close>

definition q_execute ::
  "('a list \<Rightarrow> 'a list \<Rightarrow> 'd::linorder) \<Rightarrow> 'a row list \<Rightarrow> 'a lance_query
     \<Rightarrow> string + 'd result_row list" where
  "q_execute dist rows q =
     (case (case qwhere q of
              None \<Rightarrow> Inr rows
            | Some f \<Rightarrow> (case parse_where f of
                           None \<Rightarrow> Inl invalid_filter
                         | Some p \<Rightarrow> Inr (filter (matches_where p) rows))) of
        Inl msg \<Rightarrow> Inl msg
      | Inr matching \<Rightarrow>
          (case qvector q of
             None \<Rightarrow> Inr (map (select_cols None) (take (qlimit q) matching))
           | Some v \<Rightarrow>
               Inr (map (\<lambda>r. select_cols (Some (dist v (vector r))) r)
                      (take (qlimit q) (sort_key (\<lambda>r. dist v (vector r)) matching)))))"

section \<open>Dates\<close>

text \<open>
  \<^verbatim>\<open>new Date(s).getTime()\<close> is the engine's: the milliseconds since the epoch, or NaN
  (\<open>None\<close>) when the engine does not read \<open>s\<close> as a date. The handlers take it as the
  parameter \<open>getTime\<close>.

  What the language standard fixes is the value of a string in its date-time format
  \<^verbatim>\<open>YYYY-MM-DDTHH:mm:ss.sssZ\<close> with fields in range: \<open>iso_getTime\<close> computes it, with
  \<open>DayFromYear\<close>, \<open>MakeDay\<close> and \<open>MakeTime\<close> as in the standard, and answers \<open>None\<close> for
  any other string, about which the standard leaves the engine free. An engine conforms
  when it agrees with \<open>iso_getTime\<close> wherever that has a value.
\<close>

definition InLeapYear :: "int \<Rightarrow> bool" where
  "InLeapYear y \<longleftrightarrow> y mod 4 = 0 \<and> (y mod 100 \<noteq> 0 \<or> y mod 400 = 0)"

definition DayFromYear :: "int \<Rightarrow> int" where
  "DayFromYear y = 365 * (y - 1970) + (y - 1969) div 4 - (y - 1901) div 100 + (y - 1601) div 400"

definition DaysInMonth :: "int \<Rightarrow> nat \<Rightarrow> nat" where
  "DaysInMonth y m =
     (if m = 2 then (if InLeapYear y then 29 else 28)
      else if m \<in> {4, 6, 9, 11} then 30 else 31)"

definition DaysBeforeMonth :: "int \<Rightarrow> nat \<Rightarrow> nat" where
  "DaysBeforeMonth y m = sum_list (map (DaysInMonth y) [1..<m])"

definition MakeDay :: "int \<Rightarrow> nat \<Rightarrow> nat \<Rightarrow> int" where
  "MakeDay y m d = DayFromYear y + int (DaysBeforeMonth y m) + int d - 1"

definition MakeTime :: "nat \<Rightarrow> nat \<Rightarrow> nat \<Rightarrow> nat \<Rightarrow> int" where
  "MakeTime h mi s ms = int (((h * 60 + mi) * 60 + s) * 1000 + ms)"

definition msPerDay :: int where
  "msPerDay = 86400000"

definition iso_getTime :: "string \<Rightarrow> int option" where
  "iso_getTime s =
     (if length s = 24 \<and> s ! 4 = CHR ''-'' \<and> s ! 7 = CHR ''-'' \<and> s ! 10 = CHR ''T''
         \<and> s ! 13 = CHR '':'' \<and> s ! 16 = CHR '':'' \<and> s ! 19 = CHR ''.'' \<and> s ! 23 = CHR ''Z''
      then
        (case (number_of 0 (take 4 s), number_of 0 (take 2 (drop 5 s)),
               number_of 0 (take 2 (drop 8 s)), number_of 0 (take 2 (drop 11 s)),
               number_of 0 (take 2 (drop 14 s)), number_of 0 (take 2 (drop 17 s)),
               number_of 0 (take 3 (drop 20 s))) of
           (Some y, Some m, Some d, Some h, Some mi, Some sec, Some ms) \<Rightarrow>
             if 1 \<le> m \<and> m \<le> 12 \<and> 1 \<le> d \<and> d \<le> DaysInMonth (int y) m
                \<and> (h < 24 \<or> h = 24 \<and> mi = 0 \<and> sec = 0 \<and> ms = 0) \<and> mi < 60 \<and> sec < 60
             then Some (MakeDay (int y) m d * msPerDay + MakeTime h mi sec ms)
             else None
         | _ \<Rightarrow> None)
      else None)"

definition iso_conformant :: "(string \<Rightarrow> int option) \<Rightarrow> bool" where
  "iso_conformant getTime \<longleftrightarrow> (\<forall>s t. iso_getTime s = Some t \<longrightarrow> getTime s = Some t)"

section \<open>The main process: handles and handlers\<close>

text \<open>
  The module-level variables \<^verbatim>\<open>table\<close>, \<^verbatim>\<open>embedder\<close> and \<^verbatim>\<open>nanoidFn\<close> start undefined
  and are assigned by \<^verbatim>\<open>initializeApp\<close>. The table handle stands for the rows on disk.
  The embedding pipeline is an external function that may throw: it returns the error
  message on the left or the vector on the right. \<open>calls\<close> records, in order, every use
  of the embedder and of the table.
\<close>

datatype call = Embed string | TableAdd | TableDelete | TableExecute

record 'a store =
  table :: "'a row list option"
  embedder :: "(string \<Rightarrow> string + 'a list) option"
  nanoidFn :: bool
  calls :: "call list"

text \<open>The object every handler returns: \<^verbatim>\<open>{success, error?, <payload>?}\<close>, the payload being
  \<^verbatim>\<open>item\<close>, \<^verbatim>\<open>todos\<close>, \<^verbatim>\<open>results\<close>, \<^verbatim>\<open>id\<close> or \<^verbatim>\<open>count\<close>.\<close>

record 'p reply =
  success :: bool
  error :: "string option"
  payload :: "'p option"

definition getEmbedding :: "'a store \<Rightarrow> string \<Rightarrow> 'a store \<times> (string + 'a list)" where
  "getEmbedding st txt =
     (case embedder st of
        None \<Rightarrow> (st, Inl ''Embedding pipeline not initialized.'')
      | Some e \<Rightarrow> (st\<lparr>calls := calls st @ [Embed txt]\<rparr>, e txt))"

text \<open>The template literals \<^verbatim>\<open>`id = "${todoId}"`\<close>, \<^verbatim>\<open>`timestamp >= ${startTimestamp}`\<close>
  and \<^verbatim>\<open>`timestamp <= ${endTimestamp}`\<close>.\<close>

definition id_filter :: "string \<Rightarrow> string" where
  "id_filter todoId = ''id = '' @ [CHR 0x22] @ todoId @ [CHR 0x22]"

definition ge_filter :: "int \<Rightarrow> string" where
  "ge_filter startTimestamp = ''timestamp >= '' @ string_of_int startTimestamp"

definition le_filter :: "int \<Rightarrow> string" where
  "le_filter endTimestamp = ''timestamp <= '' @ string_of_int endTimestamp"

subsection \<open>The handlers\<close>

text \<open>\<^verbatim>\<open>ipcMain.handle("add-todo")\<close>; \<open>now\<close> is the reading of \<^verbatim>\<open>Date.now()\<close> and \<open>newId\<close>
  the string \<^verbatim>\<open>nanoidFn()\<close> draws. Whatever the body throws is caught and returned as
  \<^verbatim>\<open>{success: false, error: error.message}\<close>.\<close>

definition add_todo :: "'a store \<Rightarrow> int \<Rightarrow> string \<Rightarrow> string \<Rightarrow> 'a store \<times> item reply" where
  "add_todo st now newId todoText =
     (case table st of
        None \<Rightarrow> (st, \<lparr>success = False, error = Some ''Database or embedder not initialized.'',
                      payload = None\<rparr>)
      | Some rows \<Rightarrow>
          if embedder st = None then
            (st, \<lparr>success = False, error = Some ''Database or embedder not initialized.'',
                  payload = None\<rparr>)
          else (case getEmbedding st todoText of
            (st1, Inl msg) \<Rightarrow> (st1, \<lparr>success = False, error = Some msg, payload = None\<rparr>)
          | (st1, Inr v) \<Rightarrow>
              (let todoId = newId;
                   todoItem = \<lparr>todo_id = todoId, todo_text = todoText, timestamp = now,
                               vector = v\<rparr>;
                   st2 = st1\<lparr>calls := calls st1 @ [TableAdd]\<rparr>
               in case tbl_add rows [todoItem] of
                    Inl msg \<Rightarrow> (st2, \<lparr>success = False, error = Some msg, payload = None\<rparr>)
                  | Inr rows1 \<Rightarrow>
                      (st2\<lparr>table := Some rows1\<rparr>,
                       \<lparr>success = True, error = None,
                        payload = Some \<lparr>todo_id = todo_id todoItem,
                                        todo_text = todo_text todoItem,
                                        timestamp = timestamp todoItem\<rparr>\<rparr>))))"

text \<open>\<^verbatim>\<open>ipcMain.handle("get-todos")\<close>: a scan of up to 500 rows, stripped to the three
  fields and sorted by \<^verbatim>\<open>(a, b) => b.timestamp - a.timestamp\<close>. JavaScript's sort is
  stable, as \<open>sort_key\<close> is. The scan has no query vector, so the metric plays no part.\<close>

definition get_todos ::
  "('a list \<Rightarrow> 'a list \<Rightarrow> 'd::linorder) \<Rightarrow> 'a store \<Rightarrow> 'a store \<times> item list reply" where
  "get_todos dist st =
     (case table st of
        None \<Rightarrow> (st, \<lparr>success = False, error = Some ''Database not initialized.'',
                      payload = Some []\<rparr>)
      | Some rows \<Rightarrow>
          (let st1 = st\<lparr>calls := calls st @ [TableExecute]\<rparr>
           in case q_execute dist rows (q_limit 500 (tbl_search None)) of
                Inl msg \<Rightarrow> (st1, \<lparr>success = False, error = Some msg, payload = Some []\<rparr>)
              | Inr results \<Rightarrow>
                  (let todos = sort_key (\<lambda>t. - timestamp t)
                                 (map (\<lambda>r. \<lparr>todo_id = todo_id r, todo_text = todo_text r,
                                             timestamp = timestamp r\<rparr>) results)
                   in (st1, \<lparr>success = True, error = None, payload = Some todos\<rparr>))))"

text \<open>The filters of \<^verbatim>\<open>ipcMain.handle("search-todos")\<close>: a bound is pushed when its date
  argument is truthy (neither null nor the empty string) and its timestamp is not NaN.\<close>

definition search_filters ::
  "(string \<Rightarrow> int option) \<Rightarrow> string option \<Rightarrow> string option \<Rightarrow> string list" where
  "search_filters getTime startDate endDate =
     (let filters = [];
          filters = (case startDate of
                       None \<Rightarrow> filters
                     | Some sd \<Rightarrow>
                         if sd = [] then filters
                         else (case getTime (sd @ ''T00:00:00.000Z'') of
                                 None \<Rightarrow> filters
                               | Some startTimestamp \<Rightarrow>
                                   filters @ [ge_filter startTimestamp]));
          filters = (case endDate of
                       None \<Rightarrow> filters
                     | Some ed \<Rightarrow>
                         if ed = [] then filters
                         else (case getTime (ed @ ''T23:59:59.999Z'') of
                                 None \<Rightarrow> filters
                               | Some endTimestamp \<Rightarrow>
                                   filters @ [le_filter endTimestamp]))
      in filters)"

text \<open>\<^verbatim>\<open>ipcMain.handle("search-todos")\<close>.\<close>

definition search_todos ::
  "('a list \<Rightarrow> 'a list \<Rightarrow> 'd::linorder) \<Rightarrow> (string \<Rightarrow> int option) \<Rightarrow> 'a store \<Rightarrow> string
     \<Rightarrow> string option \<Rightarrow> string option \<Rightarrow> 'a store \<times> 'd hit list reply" where
  "search_todos dist getTime st query startDate endDate =
     (case table st of
        None \<Rightarrow> (st, \<lparr>success = False, error = Some ''Database or embedder not initialized.'',
                      payload = Some []\<rparr>)
      | Some rows \<Rightarrow>
          if embedder st = None then
            (st, \<lparr>success = False, error = Some ''Database or embedder not initialized.'',
                  payload = Some []\<rparr>)
          else if query = [] \<or> trim query = [] then
            (st, \<lparr>success = True, error = None, payload = Some []\<rparr>)
          else (case getEmbedding st query of
            (st1, Inl msg) \<Rightarrow> (st1, \<lparr>success = False, error = Some msg, payload = Some []\<rparr>)
          | (st1, Inr queryVector) \<Rightarrow>
              (let lanceQuery = tbl_search (Some queryVector);
                   filters = search_filters getTime startDate endDate;
                   lanceQuery = (if length filters > 0
                                 then q_where (join '' AND '' filters) lanceQuery
                                 else lanceQuery);
                   st2 = st1\<lparr>calls := calls st1 @ [TableExecute]\<rparr>
               in case q_execute dist rows (q_limit 10 lanceQuery) of
                    Inl msg \<Rightarrow> (st2, \<lparr>success = False, error = Some msg, payload = Some []\<rparr>)
                  | Inr searchResultsRaw \<Rightarrow>
                      (let searchResults =
                             map (\<lambda>r. \<lparr>todo_id = todo_id r, todo_text = todo_text r,
                                        timestamp = timestamp r, score = distance r\<rparr>)
                               searchResultsRaw
                       in (st2, \<lparr>success = True, error = None,
                                 payload = Some searchResults\<rparr>)))))"

text \<open>\<^verbatim>\<open>ipcMain.handle("update-todo")\<close>: embed, delete by id, add the replacement. When the
  delete throws, nothing is added.\<close>

definition update_todo :: "'a store \<Rightarrow> int \<Rightarrow> string \<Rightarrow> string \<Rightarrow> 'a store \<times> item reply" where
  "update_todo st now todoId newText =
     (case table st of
        None \<Rightarrow> (st, \<lparr>success = False, error = Some ''Database or embedder not initialized.'',
                      payload = None\<rparr>)
      | Some rows \<Rightarrow>
          if embedder st = None then
            (st, \<lparr>success = False, error = Some ''Database or embedder not initialized.'',
                  payload = None\<rparr>)
          else (case getEmbedding st newText of
            (st1, Inl msg) \<Rightarrow> (st1, \<lparr>success = False, error = Some msg, payload = None\<rparr>)
          | (st1, Inr newVector) \<Rightarrow>
              (let newTimestamp = now;
                   updatedTodoItemData = \<lparr>todo_id = todoId, todo_text = newText,
                                           timestamp = newTimestamp, vector = newVector\<rparr>;
                   st2 = st1\<lparr>calls := calls st1 @ [TableDelete]\<rparr>
               in case tbl_delete rows (id_filter todoId) of
                    Inl msg \<Rightarrow> (st2, \<lparr>success = False, error = Some msg, payload = None\<rparr>)
                  | Inr rows1 \<Rightarrow>
                      (let st3 = st2\<lparr>table := Some rows1, calls := calls st2 @ [TableAdd]\<rparr>
                       in case tbl_add rows1 [updatedTodoItemData] of
                            Inl msg \<Rightarrow>
                              (st3, \<lparr>success = False, error = Some msg, payload = None\<rparr>)
                          | Inr rows2 \<Rightarrow>
                              (st3\<lparr>table := Some rows2\<rparr>,
                               \<lparr>success = True, error = None,
                                payload = Some \<lparr>todo_id = todoId, todo_text = newText,
                                                timestamp = newTimestamp\<rparr>\<rparr>)))))"

text \<open>\<^verbatim>\<open>ipcMain.handle("delete-todo")\<close>.\<close>

definition delete_todo :: "'a store \<Rightarrow> string \<Rightarrow> 'a store \<times> string reply" where
  "delete_todo st todoId =
     (case table st of
        None \<Rightarrow> (st, \<lparr>success = False, error = Some ''Database not initialized.'',
                      payload = None\<rparr>)
      | Some rows \<Rightarrow>
          (let st1 = st\<lparr>calls := calls st @ [TableDelete]\<rparr>
           in case tbl_delete rows (id_filter todoId) of
                Inl msg \<Rightarrow> (st1, \<lparr>success = False, error = Some msg, payload = None\<rparr>)
              | Inr rows1 \<Rightarrow>
                  (st1\<lparr>table := Some rows1\<rparr>,
                   \<lparr>success = True, error = None, payload = Some todoId\<rparr>)))"

subsection \<open>Seeding demo data\<close>

definition demo_places :: "string list" where
  "demo_places = [''Mars'', ''Jupiter'', ''Saturn'', ''ancient ruins'', ''deep sea'']"

definition demo_text :: "nat \<Rightarrow> string \<Rightarrow> string" where
  "demo_text i kw =
     ''Demo task '' @ string_of_nat (i + 1) @ '': Explore '' @ demo_places ! (i mod 5)
       @ '' with keyword '' @ kw"

text \<open>What one round of the seeding loop draws at random: \<^verbatim>\<open>nanoidFn(6)\<close>,
  \<^verbatim>\<open>nanoidFn()\<close> and the time of a day within the last ninety.\<close>

record draw =
  keyword :: string
  drawn_id :: string
  past_time :: int

fun seed_loop ::
  "'a store \<Rightarrow> (nat \<Rightarrow> draw) \<Rightarrow> nat \<Rightarrow> nat \<Rightarrow> 'a row list \<Rightarrow> 'a store \<times> (string + 'a row list)" where
  "seed_loop st rnd i 0 demoTodos = (st, Inr demoTodos)"
| "seed_loop st rnd i (Suc n) demoTodos =
     (let txt = demo_text i (keyword (rnd i)) in
      case getEmbedding st txt of
        (st1, Inl msg) \<Rightarrow> (st1, Inl msg)
      | (st1, Inr v) \<Rightarrow>
          seed_loop st1 rnd (Suc i) n
            (demoTodos @ [\<lparr>todo_id = drawn_id (rnd i), todo_text = txt,
                            timestamp = past_time (rnd i), vector = v\<rparr>]))"

text \<open>\<^verbatim>\<open>ipcMain.handle("seed-demo-data")\<close>: one hundred rows, added in one call once all are
  embedded.\<close>

definition seed_demo_data :: "'a store \<Rightarrow> (nat \<Rightarrow> draw) \<Rightarrow> 'a store \<times> nat reply" where
  "seed_demo_data st rnd =
     (case table st of
        None \<Rightarrow> (st, \<lparr>success = False,
                      error = Some ''Core components (DB, embedder, nanoid) not initialized.'',
                      payload = None\<rparr>)
      | Some rows \<Rightarrow>
          if embedder st = None \<or> \<not> nanoidFn st then
            (st, \<lparr>success = False,
                  error = Some ''Core components (DB, embedder, nanoid) not initialized.'',
                  payload = None\<rparr>)
          else (case seed_loop st rnd 0 100 [] of
            (st1, Inl msg) \<Rightarrow> (st1, \<lparr>success = False, error = Some msg, payload = None\<rparr>)
          | (st1, Inr demoTodos) \<Rightarrow>
              (let st2 = st1\<lparr>calls := calls st1 @ [TableAdd]\<rparr>
               in case tbl_add rows demoTodos of
                    Inl msg \<Rightarrow> (st2, \<lparr>success = False, error = Some msg, payload = None\<rparr>)
                  | Inr rows1 \<Rightarrow>
                      (st2\<lparr>table := Some rows1\<rparr>,
                       \<lparr>success = True, error = None,
                        payload = Some (length demoTodos)\<rparr>))))"

subsection \<open>Initialization\<close>

text \<open>
  What the outside world answers to \<^verbatim>\<open>initializeApp\<close>: for each awaited call the error
  it throws, if any, or its value. \<open>disk\<close> is the table found under \<^verbatim>\<open>TABLE_NAME\<close>,
  if there is one. \<open>delete_error\<close> is a failure of the storage under the delete of the
  dummy record.
\<close>

record 'a init_io =
  import_transformers :: "string option"
  import_vectordb :: "string option"
  import_nanoid :: "string option"
  import_arrow :: "string option"
  make_pipeline :: "string + (string \<Rightarrow> string + 'a list)"
  connect_error :: "string option"
  tableNames_error :: "string option"
  disk :: "'a row list option"
  openTable_error :: "string option"
  createTable_error :: "string option"
  delete_error :: "string option"

datatype notification = InitializationSuccess | InitializationError string

definition VECTOR_DIMENSION :: nat where
  "VECTOR_DIMENSION = 384"

definition dummyData :: "int \<Rightarrow> ('a::zero) row list" where
  "dummyData now =
     [\<lparr>todo_id = ''dummy_id_init'', todo_text = ''dummy_text_init'', timestamp = now,
       vector = replicate VECTOR_DIMENSION 0\<rparr>]"

definition store0 :: "'a store" where
  "store0 = \<lparr>table = None, embedder = None, nanoidFn = False, calls = []\<rparr>"

definition send :: "bool \<Rightarrow> notification \<Rightarrow> notification option" where
  "send mainWindow n = (if mainWindow then Some n else None)"

text \<open>\<^verbatim>\<open>initializeApp\<close>: each assignment to a module-level variable stays when a later
  step throws; the catch block only notifies the window.\<close>

definition initializeApp ::
  "('a::zero) store \<Rightarrow> 'a init_io \<Rightarrow> int \<Rightarrow> bool \<Rightarrow> 'a store \<times> notification option" where
  "initializeApp st io now mainWindow =
     (case import_transformers io of Some m \<Rightarrow> (st, send mainWindow (InitializationError m))
      | None \<Rightarrow>
     (case import_vectordb io of Some m \<Rightarrow> (st, send mainWindow (InitializationError m))
      | None \<Rightarrow>
     (case import_nanoid io of Some m \<Rightarrow> (st, send mainWindow (InitializationError m))
      | None \<Rightarrow>
     (let st1 = st\<lparr>nanoidFn := True\<rparr> in
      case import_arrow io of Some m \<Rightarrow> (st1, send mainWindow (InitializationError m))
      | None \<Rightarrow>
     (case make_pipeline io of Inl m \<Rightarrow> (st1, send mainWindow (InitializationError m))
      | Inr e \<Rightarrow>
     (let st2 = st1\<lparr>embedder := Some e\<rparr> in
      case connect_error io of Some m \<Rightarrow> (st2, send mainWindow (InitializationError m))
      | None \<Rightarrow>
     (case tableNames_error io of Some m \<Rightarrow> (st2, send mainWindow (InitializationError m))
      | None \<Rightarrow>
     (case disk io of
        Some rows \<Rightarrow>
          (case openTable_error io of
             Some m \<Rightarrow> (st2, send mainWindow (InitializationError m))
           | None \<Rightarrow> (st2\<lparr>table := Some rows\<rparr>, send mainWindow InitializationSuccess))
      | None \<Rightarrow>
          (case createTable_error io of
             Some m \<Rightarrow> (st2, send mainWindow (InitializationError m))
           | None \<Rightarrow>
               (let st3 = st2\<lparr>table := Some (dummyData now)\<rparr>;
                    st4 = st3\<lparr>calls := calls st3 @ [TableDelete]\<rparr> in
                case delete_error io of
                  Some m \<Rightarrow> (st4, send mainWindow (InitializationError m))
                | None \<Rightarrow>
                    (case tbl_delete (dummyData now) (id_filter ''dummy_id_init'') of
                       Inl m \<Rightarrow> (st4, send mainWindow (InitializationError m))
                     | Inr rows1 \<Rightarrow>
                         (st4\<lparr>table := Some rows1\<rparr>,
                          send mainWindow InitializationSuccess))))))))))))"

subsection \<open>Requests over the lifetime of the process\<close>

datatype request =
    Add int string string
  | List
  | Search string "string option" "string option"
  | Update int string string
  | Delete string
  | Seed "nat \<Rightarrow> draw"

datatype 'd response =
    ItemReply "item reply"
  | ListReply "item list reply"
  | HitsReply "'d hit list reply"
  | IdReply "string reply"
  | CountReply "nat reply"

fun handle ::
  "('a list \<Rightarrow> 'a list \<Rightarrow> 'd::linorder) \<Rightarrow> (string \<Rightarrow> int option) \<Rightarrow> 'a store \<Rightarrow> request
     \<Rightarrow> 'a store \<times> 'd response" where
  "handle dist gt st (Add now newId txt) = map_prod (\<lambda>s. s) ItemReply (add_todo st now newId txt)"
| "handle dist gt st List = map_prod (\<lambda>s. s) ListReply (get_todos dist st)"
| "handle dist gt st (Search q sd ed) =
     map_prod (\<lambda>s. s) HitsReply (search_todos dist gt st q sd ed)"
| "handle dist gt st (Update now i txt) = map_prod (\<lambda>s. s) ItemReply (update_todo st now i txt)"
| "handle dist gt st (Delete i) = map_prod (\<lambda>s. s) IdReply (delete_todo st i)"
| "handle dist gt st (Seed rnd) = map_prod (\<lambda>s. s) CountReply (seed_demo_data st rnd)"

fun run ::
  "('a list \<Rightarrow> 'a list \<Rightarrow> 'd::linorder) \<Rightarrow> (string \<Rightarrow> int option) \<Rightarrow> 'a store \<Rightarrow> request list
     \<Rightarrow> 'a store \<times> 'd response list" where
  "run dist gt st [] = (st, [])"
| "run dist gt st (rq # rqs) =
     (case handle dist gt st rq of
        (st1, r) \<Rightarrow> (case run dist gt st1 rqs of (st2, rs) \<Rightarrow> (st2, r # rs)))"

fun response_success :: "'d response \<Rightarrow> bool" where
  "response_success (ItemReply r) = success r"
| "response_success (ListReply r) = success r"
| "response_success (HitsReply r) = success r"
| "response_success (IdReply r) = success r"
| "response_success (CountReply r) = success r"

fun response_error :: "'d response \<Rightarrow> string option" where
  "response_error (ItemReply r) = error r"
| "response_error (ListReply r) = error r"
| "response_error (HitsReply r) = error r"
| "response_error (IdReply r) = error r"
| "response_error (CountReply r) = error r"

text \<open>The not-ready results: the texts the handlers return when a handle is unassigned.\<close>

definition not_initialized_messages :: "string list" where
  "not_initialized_messages =
     [''Database or embedder not initialized.'', ''Database not initialized.'',
      ''Core components (DB, embedder, nanoid) not initialized.'']"

definition not_ready :: "'d response \<Rightarrow> bool" where
  "not_ready r \<longleftrightarrow>
     \<not> response_success r \<and>
     (case response_error r of None \<Rightarrow> False | Some m \<Rightarrow> m \<in> set not_initialized_messages)"

section \<open>The renderer\<close>

text \<open>
  The click handlers of the renderer that reach a mutating handler of the main process.
  Only what they send is modelled, not the page: the state is the store of the main
  process, and the result is the reply, if a request was sent at all.
\<close>

definition add_click :: "'a store \<Rightarrow> int \<Rightarrow> string \<Rightarrow> string \<Rightarrow> 'a store \<times> item reply option" where
  "add_click st now newId inputValue =
     (let txt = trim inputValue in
      if txt \<noteq> [] then map_prod (\<lambda>s. s) Some (add_todo st now newId txt)
      else (st, None))"

definition update_click ::
  "'a store \<Rightarrow> int \<Rightarrow> string \<Rightarrow> string \<Rightarrow> item option \<Rightarrow> 'a store \<times> item reply option" where
  "update_click st now editingTodoId inputValue originalTodoObjectForEdit =
     (let todoId = editingTodoId; newText = trim inputValue in
      if todoId = [] \<or> newText = [] then (st, None)
      else if (case originalTodoObjectForEdit of None \<Rightarrow> False
                                                | Some orig \<Rightarrow> newText = todo_text orig)
      then (st, None)
      else map_prod (\<lambda>s. s) Some (update_todo st now todoId newText))"

definition handleDeleteTodo ::
  "'a store \<Rightarrow> string \<Rightarrow> bool \<Rightarrow> string \<Rightarrow> 'a store \<times> string reply option" where
  "handleDeleteTodo st editingTodoId confirmed todoId =
     (if editingTodoId = todoId then (st, None)
      else if confirmed then map_prod (\<lambda>s. s) Some (delete_todo st todoId)
      else (st, None))"

definition seed_click ::
  "'a store \<Rightarrow> string \<Rightarrow> bool \<Rightarrow> (nat \<Rightarrow> draw) \<Rightarrow> 'a store \<times> nat reply option" where
  "seed_click st editingTodoId confirmed rnd =
     (if editingTodoId \<noteq> [] then (st, None)
      else if confirmed then map_prod (\<lambda>s. s) Some (seed_demo_data st rnd)
      else (st, None))"

datatype ui_event =
    AddClick int string string
  | UpdateClick int string string "item option"
  | DeleteClick string bool string
  | SeedClick string bool "nat \<Rightarrow> draw"

fun ui_step :: "'a store \<Rightarrow> ui_event \<Rightarrow> 'a store" where
  "ui_step st (AddClick now newId v) = fst (add_click st now newId v)"
| "ui_step st (UpdateClick now ed v orig) = fst (update_click st now ed v orig)"
| "ui_step st (DeleteClick ed c i) = fst (handleDeleteTodo st ed c i)"
| "ui_step st (SeedClick ed c rnd) = fst (seed_click st ed c rnd)"

text \<open>
  The stores the application reaches: a first start on an empty data directory, any
  user action, and a new start of the process on the table an earlier run left on disk.
\<close>

inductive app_reachable :: "('a::zero) store \<Rightarrow> bool" where
  first_start: "disk io = None \<Longrightarrow> app_reachable (fst (initializeApp store0 io now w))"
| user_action: "app_reachable st \<Longrightarrow> app_reachable (ui_step st ev)"
| restart: "app_reachable st \<Longrightarrow> table st = Some rows \<Longrightarrow> disk io = Some rows
            \<Longrightarrow> app_reachable (fst (initializeApp store0 io now w))"

section \<open>Views used in the statements\<close>

text \<open>The id, text and timestamp of a row, an item or a hit.\<close>

definition item_of :: "'z item_scheme \<Rightarrow> item" where
  "item_of r = \<lparr>todo_id = todo_id r, todo_text = todo_text r, timestamp = timestamp r\<rparr>"

text \<open>The hit made of a row: its three fields and, as score, its distance to the query vector.\<close>

definition hit_of :: "('a list \<Rightarrow> 'a list \<Rightarrow> 'd) \<Rightarrow> 'a list \<Rightarrow> 'a row \<Rightarrow> 'd hit" where
  "hit_of dist qv r =
     \<lparr>todo_id = todo_id r, todo_text = todo_text r, timestamp = timestamp r,
      score = Some (dist qv (vector r))\<rparr>"

text \<open>The conjunction of a list of conditions, and the conditions that the filters of a
  search stand for.\<close>

definition matches_all :: "cond list \<Rightarrow> 'a row \<Rightarrow> bool" where
  "matches_all cs r = list_all (\<lambda>c. matches c r) cs"

definition search_conds ::
  "(string \<Rightarrow> int option) \<Rightarrow> string option \<Rightarrow> string option \<Rightarrow> cond list" where
  "search_conds getTime startDate endDate =
     (case startDate of
        None \<Rightarrow> []
      | Some sd \<Rightarrow>
          if sd = [] then []
          else (case getTime (sd @ ''T00:00:00.000Z'') of None \<Rightarrow> [] | Some t \<Rightarrow> [TsGe t]))
     @ (case endDate of
          None \<Rightarrow> []
        | Some ed \<Rightarrow>
            if ed = [] then []
            else (case getTime (ed @ ''T23:59:59.999Z'') of None \<Rightarrow> [] | Some t \<Rightarrow> [TsLe t]))"

text \<open>The rows a search returns: the ten nearest of the rows that meet the conditions.\<close>

definition nearest ::
  "('a list \<Rightarrow> 'a list \<Rightarrow> 'd::linorder) \<Rightarrow> 'a list \<Rightarrow> cond list \<Rightarrow> 'a row list \<Rightarrow> 'a row list" where
  "nearest dist qv cs rows =
     take 10 (sort_key (\<lambda>r. dist qv (vector r)) (filter (matches_all cs) rows))"

text \<open>No stored record has an empty text.\<close>

definition texts_nonempty :: "'a store \<Rightarrow> bool" where
  "texts_nonempty st \<longleftrightarrow>
     (case table st of None \<Rightarrow> True | Some rows \<Rightarrow> [] \<notin> todo_text ` set rows)"

section \<open>Sample data for the closed examples\<close>

definition ex_embed :: "string \<Rightarrow> string + int list" where
  "ex_embed s = Inr [int (length s), int (length (filter (\<lambda>c. c = CHR ''a'') s))]"

definition ex_dist :: "int list \<Rightarrow> int list \<Rightarrow> int" where
  "ex_dist u v = sum_list (map (\<lambda>(x, y). (x - y) * (x - y)) (zip u v))"

definition ex_rows :: "int row list" where
  "ex_rows =
     [\<lparr>todo_id = ''a1'', todo_text = ''buy milk'', timestamp = 1710374400000, vector = [8, 0]\<rparr>,
      \<lparr>todo_id = ''b2'', todo_text = ''buy bread'', timestamp = 1710498600000, vector = [9, 1]\<rparr>,
      \<lparr>todo_id = ''c3'', todo_text = ''call dad'', timestamp = 1710633600000, vector = [8, 3]\<rparr>]"

definition ex_store :: "int store" where
  "ex_store = \<lparr>table = Some ex_rows, embedder = Some ex_embed, nanoidFn = True, calls = []\<rparr>"




definition ex_day_rows :: "int row list" where
  "ex_day_rows =
     [\<lparr>todo_id = ''d1'', todo_text = ''buy milk'', timestamp = 1710460799999, vector = [8, 0]\<rparr>,
      \<lparr>todo_id = ''d2'', todo_text = ''buy bread'', timestamp = 1710547199999, vector = [9, 1]\<rparr>,
      \<lparr>todo_id = ''d3'', todo_text = ''call dad'', timestamp = 1710547200000, vector = [8, 3]\<rparr>]"

definition ex_day_store :: "int store" where
  "ex_day_store =
     \<lparr>table = Some ex_day_rows, embedder = Some ex_embed, nanoidFn = True, calls = []\<rparr>"

definition ex_flaky_embed :: "string \<Rightarrow> string + int list" where
  "ex_flaky_embed s = (if s = ''boom'' then Inl ''inference failed'' else ex_embed s)"

definition ex_io :: "int init_io" where
  "ex_io =
     \<lparr>import_transformers = None, import_vectordb = None, import_nanoid = None,
      import_arrow = None, make_pipeline = Inr ex_flaky_embed, connect_error = None,
      tableNames_error = None, disk = None, openTable_error = None,
      createTable_error = None, delete_error = None\<rparr>"

definition ex_io_delete_fails :: "int init_io" where
  "ex_io_delete_fails = ex_io\<lparr>delete_error := Some ''delete failed''\<rparr>"

definition ex_io_create_fails :: "int init_io" where
  "ex_io_create_fails = ex_io\<lparr>createTable_error := Some ''create failed''\<rparr>"

text \<open>Ids that break the quoting of the filter text: a lone double quote, \<^verbatim>\<open>q"q\<close>, and
  \<^verbatim>\<open>b2" OR id = "a1\<close>.\<close>

definition ex_quote_id :: string where
  "ex_quote_id = [CHR 0x22]"

definition ex_broken_id :: string where
  "ex_broken_id = ''q'' @ [CHR 0x22] @ ''q''"

definition ex_inject_id :: string where
  "ex_inject_id = ''b2'' @ [CHR 0x22] @ '' OR id = '' @ [CHR 0x22] @ ''a1''"


section \<open>Numbers in decimal\<close>

lemma digit_cases: "d < 10 \<Longrightarrow> d \<in> {0, 1, 2, 3, 4, 5, 6, 7, 8, 9 :: nat}"
  by auto

lemma digit_val_digit_char: "d < 10 \<Longrightarrow> digit_val (digit_char d) = Some d"
  by (drule digit_cases) (auto simp: digit_char_def digit_val_def)

lemma digit_char_plain:
  "d < 10 \<Longrightarrow> digit_char d \<notin> set [CHR '' '', CHR 0x22, CHR ''-'', CHR ''A'', CHR ''O'']"
  by (drule digit_cases) (auto simp: digit_char_def)

lemma number_of_snoc:
  "number_of acc (xs @ [c]) =
     (case number_of acc xs of
        None \<Rightarrow> None
      | Some m \<Rightarrow> (case digit_val c of None \<Rightarrow> None | Some d \<Rightarrow> Some (10 * m + d)))"
  by (induction xs arbitrary: acc) (auto split: option.splits)

lemma number_of_string_of_nat: "number_of 0 (string_of_nat n) = Some n"
proof (induction n rule: string_of_nat.induct)
  case (1 n)
  show ?case
  proof (cases "n < 10")
    case True
    then show ?thesis
      by (subst string_of_nat.simps) (simp add: digit_val_digit_char)
  next
    case False
    then have "number_of 0 (string_of_nat (n div 10)) = Some (n div 10)"
      by (rule "1.IH")
    with False show ?thesis
      by (subst string_of_nat.simps) (simp add: number_of_snoc digit_val_digit_char)
  qed
qed

lemma string_of_nat_plain:
  "c \<in> set (string_of_nat n) \<Longrightarrow> c \<notin> set [CHR '' '', CHR 0x22, CHR ''-'', CHR ''A'', CHR ''O'']"
proof (induction n rule: string_of_nat.induct)
  case (1 n)
  show ?case
  proof (cases "n < 10")
    case True
    with "1.prems" have "c = digit_char n"
      by (subst (asm) string_of_nat.simps) simp
    with True show ?thesis
      using digit_char_plain [of n] by simp
  next
    case False
    with "1.prems" have "c \<in> set (string_of_nat (n div 10)) \<or> c = digit_char (n mod 10)"
      by (subst (asm) string_of_nat.simps) auto
    with False "1.IH" digit_char_plain [of "n mod 10"] show ?thesis
      by auto
  qed
qed

lemma string_of_nat_nonempty: "string_of_nat n \<noteq> []"
  by (subst string_of_nat.simps) simp

lemma string_of_int_plain:
  "c \<in> set (string_of_int n) \<Longrightarrow> c \<noteq> CHR '' '' \<and> c \<noteq> CHR 0x22"
  by (auto simp: string_of_int_def dest: string_of_nat_plain split: if_splits)

lemma string_of_int_not_keyword: "string_of_int n \<noteq> ''AND'' \<and> string_of_int n \<noteq> ''OR''"
proof -
  have "CHR ''A'' \<notin> set (string_of_int n)" and "CHR ''O'' \<notin> set (string_of_int n)"
    by (auto simp: string_of_int_def dest: string_of_nat_plain split: if_splits)
  then show ?thesis
    by auto
qed

lemma string_of_int_nonempty: "string_of_int n \<noteq> []"
  by (simp add: string_of_int_def string_of_nat_nonempty)

lemma parse_int_string_of_int: "parse_int (string_of_int n) = Some n"
proof (cases "n < 0")
  case True
  then show ?thesis
    by (simp add: parse_int_def string_of_int_def string_of_nat_nonempty number_of_string_of_nat)
next
  case False
  obtain c ds where w: "string_of_nat (nat n) = c # ds"
    using string_of_nat_nonempty [of "nat n"] by (cases "string_of_nat (nat n)") auto
  then have "c \<in> set (string_of_nat (nat n))"
    by simp
  then have "c \<noteq> CHR ''-''"
    by (auto dest: string_of_nat_plain)
  moreover have "number_of 0 (c # ds) = Some (nat n)"
    using number_of_string_of_nat [of "nat n"] w by simp
  ultimately show ?thesis
    using False w by (simp add: parse_int_def string_of_int_def del: number_of.simps)
qed

section \<open>Reading the filter text\<close>

lemma lexer_InStr_closed:
  "CHR 0x22 \<notin> set i \<Longrightarrow>
   lexer (InStr s) (i @ CHR 0x22 # rest) = map_option (Cons (TStr (s @ i))) (lexer Out rest)"
  by (induction i arbitrary: s) auto

lemma lexer_InWord_run:
  "\<forall>c \<in> set u. c \<noteq> CHR '' '' \<and> c \<noteq> CHR 0x22 \<Longrightarrow>
   lexer (InWord w) (u @ rest) = lexer (InWord (w @ u)) rest"
  by (induction u arbitrary: w) auto

lemma lexer_Out_word:
  assumes "\<forall>c \<in> set u. c \<noteq> CHR '' '' \<and> c \<noteq> CHR 0x22" and "u \<noteq> []"
  shows "lexer Out (u @ rest) = lexer (InWord u) rest"
proof -
  from assms(2) obtain c u' where u: "u = c # u'"
    by (cases u) auto
  with assms(1) have "lexer (InWord [c]) (u' @ rest) = lexer (InWord ([c] @ u')) rest"
    by (intro lexer_InWord_run) simp
  with u assms(1) show ?thesis
    by simp
qed

lemma lexer_Out_number:
  "lexer Out (string_of_int n @ rest) = lexer (InWord (string_of_int n)) rest"
  by (rule lexer_Out_word) (auto dest: string_of_int_plain simp: string_of_int_nonempty)

lemma parse_where_id_filter:
  "CHR 0x22 \<notin> set i \<Longrightarrow> parse_where (id_filter i) = Some [[IdEq i]]"
  by (simp add: parse_where_def id_filter_def lexer_InStr_closed)

lemma parse_where_ge: "parse_where (ge_filter a) = Some [[TsGe a]]"
  using lexer_Out_number [of a "[]"] string_of_int_not_keyword [of a]
  by (simp add: parse_where_def ge_filter_def parse_int_string_of_int)

lemma parse_where_le: "parse_where (le_filter b) = Some [[TsLe b]]"
  using lexer_Out_number [of b "[]"] string_of_int_not_keyword [of b]
  by (simp add: parse_where_def le_filter_def parse_int_string_of_int)

lemma parse_where_ge_le:
  "parse_where (join '' AND '' [ge_filter a, le_filter b]) = Some [[TsGe a, TsLe b]]"
  using lexer_Out_number [of a "'' AND timestamp <= '' @ string_of_int b"]
    lexer_Out_number [of b "[]"] string_of_int_not_keyword [of a]
    string_of_int_not_keyword [of b]
  by (simp add: parse_where_def ge_filter_def le_filter_def parse_int_string_of_int)

lemma matches_where_single [simp]: "matches_where [cs] r = matches_all cs r"
  by (simp add: matches_where_def matches_all_def)

lemma matches_all_Nil [simp]: "matches_all [] r"
  by (simp add: matches_all_def)

lemma search_filters_conds:
  "search_filters gt sd ed = []
     \<and> search_conds gt sd ed = []
   \<or> search_filters gt sd ed \<noteq> []
     \<and> parse_where (join '' AND '' (search_filters gt sd ed)) = Some [search_conds gt sd ed]"
  using parse_where_ge_le
  by (auto simp: search_filters_def search_conds_def parse_where_ge parse_where_le
      split: option.splits)

section \<open>What the handlers compute on a ready store\<close>

lemma getEmbedding_ready:
  "embedder st = Some e \<Longrightarrow> getEmbedding st txt = (st\<lparr>calls := calls st @ [Embed txt]\<rparr>, e txt)"
  by (simp add: getEmbedding_def)

lemma tbl_delete_id:
  "CHR 0x22 \<notin> set i \<Longrightarrow> tbl_delete rows (id_filter i) = Inr (filter (\<lambda>r. todo_id r \<noteq> i) rows)"
  by (simp add: tbl_delete_def parse_where_id_filter matches_all_def)

lemma get_todos_ready:
  "table st = Some rows \<Longrightarrow>
   get_todos dist st =
     (st\<lparr>calls := calls st @ [TableExecute]\<rparr>,
      \<lparr>success = True, error = None,
       payload = Some (sort_key (\<lambda>t. - timestamp t) (map item_of (take 500 rows)))\<rparr>)"
  by (simp add: get_todos_def q_execute_def q_limit_def tbl_search_def select_cols_def
      item_of_def [abs_def] comp_def)

lemma delete_todo_ready:
  "table st = Some rows \<Longrightarrow> CHR 0x22 \<notin> set i \<Longrightarrow>
   delete_todo st i =
     (st\<lparr>table := Some (filter (\<lambda>r. todo_id r \<noteq> i) rows), calls := calls st @ [TableDelete]\<rparr>,
      \<lparr>success = True, error = None, payload = Some i\<rparr>)"
  by (simp add: delete_todo_def tbl_delete_id)

lemma delete_todo_unreadable:
  "table st = Some rows \<Longrightarrow> parse_where (id_filter i) = None \<Longrightarrow>
   delete_todo st i =
     (st\<lparr>calls := calls st @ [TableDelete]\<rparr>,
      \<lparr>success = False, error = Some invalid_filter, payload = None\<rparr>)"
  by (simp add: delete_todo_def tbl_delete_def)

lemma add_todo_ready:
  "table st = Some rows \<Longrightarrow> embedder st = Some e \<Longrightarrow> e txt = Inr v \<Longrightarrow>
   add_todo st now newId txt =
     (st\<lparr>table := Some (rows @ [\<lparr>todo_id = newId, todo_text = txt, timestamp = now, vector = v\<rparr>]),
         calls := calls st @ [Embed txt, TableAdd]\<rparr>,
      \<lparr>success = True, error = None,
       payload = Some \<lparr>todo_id = newId, todo_text = txt, timestamp = now\<rparr>\<rparr>)"
  by (simp add: add_todo_def getEmbedding_ready tbl_add_def)

lemma add_todo_embed_fails:
  "table st = Some rows \<Longrightarrow> embedder st = Some e \<Longrightarrow> e txt = Inl msg \<Longrightarrow>
   add_todo st now newId txt =
     (st\<lparr>calls := calls st @ [Embed txt]\<rparr>, \<lparr>success = False, error = Some msg, payload = None\<rparr>)"
  by (simp add: add_todo_def getEmbedding_ready)

lemma update_todo_ready:
  "table st = Some rows \<Longrightarrow> embedder st = Some e \<Longrightarrow> e txt = Inr v \<Longrightarrow> CHR 0x22 \<notin> set i \<Longrightarrow>
   update_todo st now i txt =
     (st\<lparr>table := Some (filter (\<lambda>r. todo_id r \<noteq> i) rows
                          @ [\<lparr>todo_id = i, todo_text = txt, timestamp = now, vector = v\<rparr>]),
         calls := calls st @ [Embed txt, TableDelete, TableAdd]\<rparr>,
      \<lparr>success = True, error = None,
       payload = Some \<lparr>todo_id = i, todo_text = txt, timestamp = now\<rparr>\<rparr>)"
  by (simp add: update_todo_def getEmbedding_ready tbl_add_def tbl_delete_id)

lemma update_todo_embed_fails:
  "table st = Some rows \<Longrightarrow> embedder st = Some e \<Longrightarrow> e txt = Inl msg \<Longrightarrow>
   update_todo st now i txt =
     (st\<lparr>calls := calls st @ [Embed txt]\<rparr>, \<lparr>success = False, error = Some msg, payload = None\<rparr>)"
  by (simp add: update_todo_def getEmbedding_ready)

lemma update_todo_unreadable:
  "table st = Some rows \<Longrightarrow> embedder st = Some e \<Longrightarrow> e txt = Inr v \<Longrightarrow>
   parse_where (id_filter i) = None \<Longrightarrow>
   update_todo st now i txt =
     (st\<lparr>calls := calls st @ [Embed txt, TableDelete]\<rparr>,
      \<lparr>success = False, error = Some invalid_filter, payload = None\<rparr>)"
  by (simp add: update_todo_def getEmbedding_ready tbl_delete_def)

lemma search_todos_ready:
  assumes "table st = Some rows" and "embedder st = Some e"
    and "query \<noteq> []" and "trim query \<noteq> []" and "e query = Inr qv"
  shows "search_todos dist gt st query startDate endDate =
     (st\<lparr>calls := calls st @ [Embed query, TableExecute]\<rparr>,
      \<lparr>success = True, error = None,
       payload = Some (map (hit_of dist qv)
                  (nearest dist qv (search_conds gt startDate endDate) rows))\<rparr>)"
proof -
  from search_filters_conds [of gt startDate endDate] show ?thesis
  proof
    assume "search_filters gt startDate endDate = [] \<and> search_conds gt startDate endDate = []"
    then show ?thesis
      using assms
      by (simp add: search_todos_def getEmbedding_ready q_execute_def q_limit_def tbl_search_def
          select_cols_def hit_of_def [abs_def] comp_def nearest_def)
  next
    assume "search_filters gt startDate endDate \<noteq> []
      \<and> parse_where (join '' AND '' (search_filters gt startDate endDate))
          = Some [search_conds gt startDate endDate]"
    then show ?thesis
      using assms
      by (simp add: search_todos_def getEmbedding_ready q_execute_def q_limit_def tbl_search_def
          q_where_def select_cols_def hit_of_def [abs_def] comp_def nearest_def
          matches_where_single [abs_def])
  qed
qed

lemma search_todos_embed_fails:
  assumes "table st = Some rows" and "embedder st = Some e"
    and "query \<noteq> []" and "trim query \<noteq> []" and "e query = Inl msg"
  shows "search_todos dist gt st query startDate endDate =
     (st\<lparr>calls := calls st @ [Embed query]\<rparr>,
      \<lparr>success = False, error = Some msg, payload = Some []\<rparr>)"
  using assms by (simp add: search_todos_def getEmbedding_ready)

section \<open>Delete\<close>

text \<open>
  Claim C4, as amended. On a store whose table handle is assigned, for every id that
  contains no double quote (the strings \<^verbatim>\<open>nanoid\<close> draws contain none), present or not,
  \<^verbatim>\<open>delete-todo\<close> succeeds and echoes the id. It removes exactly the rows under that id
  and keeps the others, so for an absent id the table is as before. The list fetched
  afterwards is the list of the remaining rows and holds no record with that id. A second
  delete of the same id succeeds again and leaves the table as the first one left it.
\<close>

theorem delete_todo_complete:
  assumes "table st = Some rows" and "CHR 0x22 \<notin> set i"
  shows "delete_todo st i
           = (st\<lparr>table := Some (filter (\<lambda>r. todo_id r \<noteq> i) rows),
                 calls := calls st @ [TableDelete]\<rparr>,
              \<lparr>success = True, error = None, payload = Some i\<rparr>)
       \<and> (i \<notin> set (map todo_id rows) \<longrightarrow> table (fst (delete_todo st i)) = Some rows)
       \<and> (\<exists>todos. snd (get_todos dist (fst (delete_todo st i)))
                     = \<lparr>success = True, error = None, payload = Some todos\<rparr>
                  \<and> todos = sort_key (\<lambda>t. - timestamp t)
                              (map item_of (take 500 (filter (\<lambda>r. todo_id r \<noteq> i) rows)))
                  \<and> (\<forall>t \<in> set todos. todo_id t \<noteq> i))
       \<and> snd (delete_todo (fst (delete_todo st i)) i)
            = \<lparr>success = True, error = None, payload = Some i\<rparr>
       \<and> table (fst (delete_todo (fst (delete_todo st i)) i)) = table (fst (delete_todo st i))"
proof -
  let ?kept = "filter (\<lambda>r. todo_id r \<noteq> i) rows"
  let ?st1 = "fst (delete_todo st i)"
  note d = delete_todo_ready [OF assms]
  have t1: "table ?st1 = Some ?kept"
    by (simp add: d)
  have absent: "i \<notin> set (map todo_id rows) \<longrightarrow> table ?st1 = Some rows"
    by (auto simp: t1 filter_id_conv)
  have "\<forall>t \<in> set (sort_key (\<lambda>t. - timestamp t) (map item_of (take 500 ?kept))). todo_id t \<noteq> i"
    by (auto simp: item_of_def dest!: in_set_takeD)
  then have lst: "\<exists>todos. snd (get_todos dist ?st1)
                     = \<lparr>success = True, error = None, payload = Some todos\<rparr>
                  \<and> todos = sort_key (\<lambda>t. - timestamp t) (map item_of (take 500 ?kept))
                  \<and> (\<forall>t \<in> set todos. todo_id t \<noteq> i)"
    by (simp add: get_todos_ready [OF t1])
  note d2 = delete_todo_ready [OF t1 assms(2)]
  have again: "snd (delete_todo ?st1 i) = \<lparr>success = True, error = None, payload = Some i\<rparr>"
    and same: "table (fst (delete_todo ?st1 i)) = table ?st1"
    by (simp_all add: d2 t1)
  from d absent lst again same show ?thesis
    by (intro conjI)
qed

theorem delete_todo_complete_witness:
  "table ex_store = Some ex_rows \<and> CHR 0x22 \<notin> set ''b2''
   \<and> snd (delete_todo ex_store ''b2'') = \<lparr>success = True, error = None, payload = Some ''b2''\<rparr>
   \<and> snd (delete_todo (fst (delete_todo ex_store ''b2'')) ''b2'')
        = \<lparr>success = True, error = None, payload = Some ''b2''\<rparr>
   \<and> map todo_id (the (table (fst (delete_todo ex_store ''b2'')))) = [''a1'', ''c3'']
   \<and> snd (get_todos ex_dist (fst (delete_todo ex_store ''b2'')))
        = \<lparr>success = True, error = None,
           payload = Some [\<lparr>todo_id = ''c3'', todo_text = ''call dad'', timestamp = 1710633600000\<rparr>,
                           \<lparr>todo_id = ''a1'', todo_text = ''buy milk'', timestamp = 1710374400000\<rparr>]\<rparr>
   \<and> CHR 0x22 \<notin> set ''zz'' \<and> ''zz'' \<notin> set (map todo_id ex_rows)
   \<and> snd (delete_todo ex_store ''zz'') = \<lparr>success = True, error = None, payload = Some ''zz''\<rparr>
   \<and> table (fst (delete_todo ex_store ''zz'')) = Some ex_rows"
proof -
  have h: "table ex_store = Some ex_rows"
    by (simp add: ex_store_def)
  have q: "CHR 0x22 \<notin> set ''b2''"
    by simp
  note main = delete_todo_complete [OF h q, of ex_dist]
  from main have a: "snd (delete_todo ex_store ''b2'')
                       = \<lparr>success = True, error = None, payload = Some ''b2''\<rparr>"
    by simp
  from main have b: "snd (delete_todo (fst (delete_todo ex_store ''b2'')) ''b2'')
        = \<lparr>success = True, error = None, payload = Some ''b2''\<rparr>"
    by blast
  from main have "table (fst (delete_todo ex_store ''b2''))
                    = Some (filter (\<lambda>r. todo_id r \<noteq> ''b2'') ex_rows)"
    by simp
  then have c: "map todo_id (the (table (fst (delete_todo ex_store ''b2'')))) = [''a1'', ''c3'']"
    by (simp add: ex_rows_def)
  have k: "sort_key (\<lambda>t. - timestamp t)
             (map item_of (take 500 (filter (\<lambda>r. todo_id r \<noteq> ''b2'') ex_rows)))
           = [\<lparr>todo_id = ''c3'', todo_text = ''call dad'', timestamp = 1710633600000\<rparr>,
              \<lparr>todo_id = ''a1'', todo_text = ''buy milk'', timestamp = 1710374400000\<rparr>]"
    by (simp add: ex_rows_def item_of_def)
  from main have "snd (get_todos ex_dist (fst (delete_todo ex_store ''b2'')))
        = \<lparr>success = True, error = None,
           payload = Some (sort_key (\<lambda>t. - timestamp t)
             (map item_of (take 500 (filter (\<lambda>r. todo_id r \<noteq> ''b2'') ex_rows))))\<rparr>"
    by blast
  then have l: "snd (get_todos ex_dist (fst (delete_todo ex_store ''b2'')))
        = \<lparr>success = True, error = None,
           payload = Some [\<lparr>todo_id = ''c3'', todo_text = ''call dad'', timestamp = 1710633600000\<rparr>,
                           \<lparr>todo_id = ''a1'', todo_text = ''buy milk'', timestamp = 1710374400000\<rparr>]\<rparr>"
    by (simp only: k)
  have q': "CHR 0x22 \<notin> set ''zz''"
    by simp
  have n: "''zz'' \<notin> set (map todo_id ex_rows)"
    by (simp add: ex_rows_def)
  note absent = delete_todo_complete [OF h q', of ex_dist]
  from absent have a': "snd (delete_todo ex_store ''zz'')
                       = \<lparr>success = True, error = None, payload = Some ''zz''\<rparr>"
    by simp
  from absent n have s: "table (fst (delete_todo ex_store ''zz'')) = Some ex_rows"
    by blast
  from h q a b c l q' n a' s show ?thesis
    by (intro conjI)
qed

text \<open>
  Claim C4 as stated fails for an id that holds a double quote, because the handler pastes
  the id into the filter text as it is. For the id that is one double quote the filter
  reads \<^verbatim>\<open>id = """\<close>, the table rejects it and the handler answers
  \<^verbatim>\<open>{success: false}\<close>.
\<close>

theorem delete_quote_id_counterexample:
  "table ex_store = Some ex_rows
   \<and> delete_todo ex_store ex_quote_id
       = (ex_store\<lparr>calls := calls ex_store @ [TableDelete]\<rparr>,
          \<lparr>success = False, error = Some invalid_filter, payload = None\<rparr>)"
proof -
  have h: "table ex_store = Some ex_rows"
    by (simp add: ex_store_def)
  have p: "parse_where (id_filter ex_quote_id) = None"
    by (simp add: parse_where_def id_filter_def ex_quote_id_def)
  from h delete_todo_unreadable [OF h p] show ?thesis
    by simp
qed

text \<open>
  With an id such as \<^verbatim>\<open>b2" OR id = "a1\<close> the filter reads \<^verbatim>\<open>id = "b2" OR id = "a1"\<close>:
  the delete succeeds and removes the rows of two other ids.
\<close>

lemma delete_todo_pasted_id:
  "snd (delete_todo ex_store ex_inject_id)
     = \<lparr>success = True, error = None, payload = Some ex_inject_id\<rparr>
   \<and> map todo_id (the (table (fst (delete_todo ex_store ex_inject_id)))) = [''c3'']"
proof -
  have p: "parse_where (id_filter ex_inject_id) = Some [[IdEq ''b2''], [IdEq ''a1'']]"
    by (simp add: parse_where_def id_filter_def ex_inject_id_def)
  show ?thesis
    by (simp add: delete_todo_def ex_store_def tbl_delete_def p matches_where_def ex_rows_def)
qed

section \<open>Update\<close>





text \<open>
  An id that holds a double quote breaks the update as well. Updating the absent id
  \<^verbatim>\<open>b2" OR id = "a1\<close> deletes the rows of \<^verbatim>\<open>b2\<close> and \<^verbatim>\<open>a1\<close> and stores a row under that
  id; updating that id again, now an existing one, leaves its old row in place beside the
  new one.
\<close>

lemma update_todo_pasted_id:
  "map todo_id (the (table (fst (update_todo ex_store 1710700000000 ex_inject_id ''x''))))
     = [''c3'', ex_inject_id]
   \<and> map todo_text (the (table (fst (update_todo
         (fst (update_todo ex_store 1710700000000 ex_inject_id ''x''))
         1710700000001 ex_inject_id ''y''))))
     = [''call dad'', ''x'', ''y'']"
proof -
  have p: "parse_where (id_filter ex_inject_id) = Some [[IdEq ''b2''], [IdEq ''a1'']]"
    by (simp add: parse_where_def id_filter_def ex_inject_id_def)
  have n: "ex_inject_id \<noteq> ''b2''" "ex_inject_id \<noteq> ''a1''"
    by (simp_all add: ex_inject_id_def)
  show ?thesis
    using n
    by (simp add: update_todo_def ex_store_def getEmbedding_def ex_embed_def tbl_delete_def
        tbl_add_def p matches_where_def ex_rows_def Let_def)
qed

text \<open>
  Claim C5, as amended. On a store whose table and embedder handles are assigned, for a
  new text that the embedder accepts and an id that contains no double quote and that no
  row carries, \<^verbatim>\<open>update-todo\<close> succeeds: the delete removes nothing, the new row is
  appended under that id, and the handler returns the item.
\<close>

theorem update_todo_creates_absent:
  assumes "table st = Some rows" and "embedder st = Some e" and "e newText = Inr v"
    and "CHR 0x22 \<notin> set i"
    and "i \<notin> set (map todo_id rows)"
  shows "tbl_delete rows (id_filter i) = Inr rows
       \<and> update_todo st now i newText
           = (st\<lparr>table := Some (rows @ [\<lparr>todo_id = i, todo_text = newText, timestamp = now,
                                          vector = v\<rparr>]),
                 calls := calls st @ [Embed newText, TableDelete, TableAdd]\<rparr>,
              \<lparr>success = True, error = None,
               payload = Some \<lparr>todo_id = i, todo_text = newText, timestamp = now\<rparr>\<rparr>)"
proof -
  have "filter (\<lambda>r. todo_id r \<noteq> i) rows = rows"
    using assms(5) by (auto simp: filter_id_conv)
  then show ?thesis
    using update_todo_ready [OF assms(1-4), of now] by (simp add: tbl_delete_id [OF assms(4)])
qed

theorem update_todo_creates_absent_witness:
  "table ex_store = Some ex_rows \<and> embedder ex_store = Some ex_embed
   \<and> ex_embed ''water plants'' = Inr [12, 2]
   \<and> CHR 0x22 \<notin> set ''zz''
   \<and> ''zz'' \<notin> set (map todo_id ex_rows)
   \<and> snd (update_todo ex_store 1710700000000 ''zz'' ''water plants'')
       = \<lparr>success = True, error = None,
          payload = Some \<lparr>todo_id = ''zz'', todo_text = ''water plants'', timestamp = 1710700000000\<rparr>\<rparr>
   \<and> table (fst (update_todo ex_store 1710700000000 ''zz'' ''water plants''))
       = Some (ex_rows @ [\<lparr>todo_id = ''zz'', todo_text = ''water plants'',
                           timestamp = 1710700000000, vector = [12, 2]\<rparr>])"
proof -
  have t: "table ex_store = Some ex_rows" and e: "embedder ex_store = Some ex_embed"
    by (simp_all add: ex_store_def)
  have v: "ex_embed ''water plants'' = Inr [12, 2]"
    by (simp add: ex_embed_def)
  have q: "CHR 0x22 \<notin> set ''zz''"
    by simp
  have m: "''zz'' \<notin> set (map todo_id ex_rows)"
    by (simp add: ex_rows_def)
  note main = update_todo_creates_absent [OF t e v q m, of 1710700000000]
  from main have r: "snd (update_todo ex_store 1710700000000 ''zz'' ''water plants'')
       = \<lparr>success = True, error = None,
          payload = Some \<lparr>todo_id = ''zz'', todo_text = ''water plants'', timestamp = 1710700000000\<rparr>\<rparr>"
    by simp
  from main have s: "table (fst (update_todo ex_store 1710700000000 ''zz'' ''water plants''))
       = Some (ex_rows @ [\<lparr>todo_id = ''zz'', todo_text = ''water plants'',
                           timestamp = 1710700000000, vector = [12, 2]\<rparr>])"
    by simp
  from t e v q m r s show ?thesis
    by (intro conjI)
qed

text \<open>
  Claim C5 as stated fails for an absent id that holds a double quote. For \<^verbatim>\<open>q"q\<close> the
  filter reads \<^verbatim>\<open>id = "q"q"\<close>: the table rejects it, the handler answers
  \<^verbatim>\<open>{success: false}\<close> after the embedding, and nothing is appended.
\<close>

theorem update_quote_id_counterexample:
  "ex_broken_id \<notin> set (map todo_id ex_rows)
   \<and> ex_embed ''water plants'' = Inr [12, 2]
   \<and> update_todo ex_store 1710700000000 ex_broken_id ''water plants''
       = (ex_store\<lparr>calls := calls ex_store @ [Embed ''water plants'', TableDelete]\<rparr>,
          \<lparr>success = False, error = Some invalid_filter, payload = None\<rparr>)
   \<and> table (fst (update_todo ex_store 1710700000000 ex_broken_id ''water plants''))
       = Some ex_rows"
proof -
  have t: "table ex_store = Some ex_rows" and e: "embedder ex_store = Some ex_embed"
    by (simp_all add: ex_store_def)
  have v: "ex_embed ''water plants'' = Inr [12, 2]"
    by (simp add: ex_embed_def)
  have p: "parse_where (id_filter ex_broken_id) = None"
    by (simp add: parse_where_def id_filter_def ex_broken_id_def)
  have a: "ex_broken_id \<notin> set (map todo_id ex_rows)"
    by (simp add: ex_rows_def ex_broken_id_def)
  note u = update_todo_unreadable [OF t e v p, of 1710700000000]
  from u t have s: "table (fst (update_todo ex_store 1710700000000 ex_broken_id ''water plants''))
       = Some ex_rows"
    by simp
  from a v u s show ?thesis
    by (intro conjI)
qed

section \<open>Search\<close>

text \<open>
  Claim C2. On a ready store, a query that is empty, or empty once trimmed, makes
  \<^verbatim>\<open>search-todos\<close> return \<^verbatim>\<open>{success: true, results: []}\<close> with the store as it was: no
  call of the embedder or of the table is recorded, whatever the date arguments.
\<close>

theorem search_empty_query_short_circuit:
  assumes "table st = Some rows" and "embedder st = Some e"
    and "query = [] \<or> trim query = []"
  shows "search_todos dist gt st query startDate endDate
           = (st, \<lparr>success = True, error = None, payload = Some []\<rparr>)"
  using assms by (auto simp: search_todos_def)

theorem search_empty_query_short_circuit_witness:
  "table ex_store = Some ex_rows \<and> embedder ex_store = Some ex_embed
   \<and> trim [CHR '' '', CHR 0x09, CHR 0xA0] = []
   \<and> search_todos ex_dist iso_getTime ex_store [CHR '' '', CHR 0x09, CHR 0xA0]
         (Some ''2024-03-15'') None
       = (ex_store, \<lparr>success = True, error = None, payload = Some []\<rparr>)
   \<and> calls (fst (search_todos ex_dist iso_getTime ex_store [] None None)) = []"
proof -
  have t: "table ex_store = Some ex_rows" and e: "embedder ex_store = Some ex_embed"
    by (simp_all add: ex_store_def)
  have q: "trim [CHR '' '', CHR 0x09, CHR 0xA0] = []"
    by (simp add: trim_def js_whitespace_def)
  have q': "[CHR '' '', CHR 0x09, CHR 0xA0] = [] \<or> trim [CHR '' '', CHR 0x09, CHR 0xA0] = []"
    using q by simp
  have c: "calls (fst (search_todos ex_dist iso_getTime ex_store [] None None)) = []"
    using search_empty_query_short_circuit [OF t e, of "[]" ex_dist iso_getTime None None]
    by (simp add: ex_store_def)
  note main = search_empty_query_short_circuit [OF t e q', of ex_dist iso_getTime
      "Some ''2024-03-15''" None]
  from t e q main c show ?thesis
    by (intro conjI)
qed

lemma nearest_before:
  fixes d :: "'r \<Rightarrow> 'k::linorder"
  assumes "a \<in> set xs" and "j < length (take n (sort_key d xs))"
    and "d a < d (take n (sort_key d xs) ! j)"
  shows "\<exists>i<j. take n (sort_key d xs) ! i = a"
proof -
  let ?S = "sort_key d xs"
  from assms(2) have j: "j < n" "j < length ?S"
    by simp_all
  from assms(1) have "a \<in> set ?S"
    by simp
  then obtain i where i: "i < length ?S" "?S ! i = a"
    unfolding in_set_conv_nth by blast
  have "i < j"
  proof (rule ccontr)
    assume "\<not> i < j"
    then have "j \<le> i" by simp
    have "sorted (map d ?S)" by simp
    then have "map d ?S ! j \<le> map d ?S ! i"
      using \<open>j \<le> i\<close> i(1) by (intro sorted_nth_mono) simp_all
    then have "d (?S ! j) \<le> d a"
      using i j by simp
    with assms(3) j show False by simp
  qed
  with i j show ?thesis
    by (intro exI [of _ i]) simp
qed

text \<open>
  Claim C7. On a ready store \<^verbatim>\<open>search-todos\<close> never returns more than ten results. For
  a query that is not blank and that the embedder accepts, the handler embeds the query and
  asks the table once; the hits are the rows \<open>chosen\<close>, stripped of their vectors, where
  \<open>chosen\<close> are the first ten, in order of ascending distance between the query vector and
  the row's vector, of the rows that pass the filter, and the score of each hit is that
  distance itself. A row that passes the filter and is strictly closer than a returned row
  stands before it.
\<close>

theorem search_ranks_by_distance:
  assumes "table st = Some rows" and "embedder st = Some e"
  shows "(\<exists>hits. payload (snd (search_todos dist gt st query startDate endDate)) = Some hits
            \<and> length hits \<le> 10)
       \<and> (query \<noteq> [] \<and> trim query \<noteq> [] \<and> e query = Inr qv \<longrightarrow>
            (\<exists>hits chosen.
               snd (search_todos dist gt st query startDate endDate)
                 = \<lparr>success = True, error = None, payload = Some hits\<rparr>
             \<and> calls (fst (search_todos dist gt st query startDate endDate))
                 = calls st @ [Embed query, TableExecute]
             \<and> chosen = take 10 (sort_key (\<lambda>r. dist qv (vector r))
                           (filter (matches_all (search_conds gt startDate endDate)) rows))
             \<and> map item_of hits = map item_of chosen
             \<and> map score hits = map (\<lambda>r. Some (dist qv (vector r))) chosen
             \<and> length hits
                 = min 10 (length (filter (matches_all (search_conds gt startDate endDate)) rows))
             \<and> set chosen \<subseteq> set rows
             \<and> sorted (map (\<lambda>r. dist qv (vector r)) chosen)
             \<and> (\<forall>a j. a \<in> set rows \<and> matches_all (search_conds gt startDate endDate) a
                        \<and> j < length chosen
                        \<and> dist qv (vector a) < dist qv (vector (chosen ! j))
                      \<longrightarrow> (\<exists>i<j. chosen ! i = a))))"
proof -
  have atmost: "\<exists>hits. payload (snd (search_todos dist gt st query startDate endDate)) = Some hits
                  \<and> length hits \<le> 10"
  proof (cases "query = [] \<or> trim query = []")
    case True
    with assms show ?thesis
      by (auto simp: search_todos_def)
  next
    case False
    then have q: "query \<noteq> []" "trim query \<noteq> []" by simp_all
    show ?thesis
    proof (cases "e query")
      case (Inl m)
      show ?thesis
        by (simp add: search_todos_embed_fails [OF assms q Inl])
    next
      case (Inr v)
      show ?thesis
        by (simp add: search_todos_ready [OF assms q Inr] nearest_def)
    qed
  qed
  have ranked: "\<exists>hits chosen.
               snd (search_todos dist gt st query startDate endDate)
                 = \<lparr>success = True, error = None, payload = Some hits\<rparr>
             \<and> calls (fst (search_todos dist gt st query startDate endDate))
                 = calls st @ [Embed query, TableExecute]
             \<and> chosen = take 10 (sort_key (\<lambda>r. dist qv (vector r))
                           (filter (matches_all (search_conds gt startDate endDate)) rows))
             \<and> map item_of hits = map item_of chosen
             \<and> map score hits = map (\<lambda>r. Some (dist qv (vector r))) chosen
             \<and> length hits
                 = min 10 (length (filter (matches_all (search_conds gt startDate endDate)) rows))
             \<and> set chosen \<subseteq> set rows
             \<and> sorted (map (\<lambda>r. dist qv (vector r)) chosen)
             \<and> (\<forall>a j. a \<in> set rows \<and> matches_all (search_conds gt startDate endDate) a
                        \<and> j < length chosen
                        \<and> dist qv (vector a) < dist qv (vector (chosen ! j))
                      \<longrightarrow> (\<exists>i<j. chosen ! i = a))"
    if q: "query \<noteq> []" "trim query \<noteq> []" and v: "e query = Inr qv"
  proof -
    let ?d = "\<lambda>r. dist qv (vector r)"
    let ?F = "filter (matches_all (search_conds gt startDate endDate)) rows"
    let ?chosen = "take 10 (sort_key ?d ?F)"
    let ?hits = "map (hit_of dist qv) ?chosen"
    note s = search_todos_ready [OF assms q v, of dist gt startDate endDate]
    have reply: "snd (search_todos dist gt st query startDate endDate)
                   = \<lparr>success = True, error = None, payload = Some ?hits\<rparr>"
      using s by (simp add: nearest_def)
    have log: "calls (fst (search_todos dist gt st query startDate endDate))
                 = calls st @ [Embed query, TableExecute]"
      using s by simp
    have items: "map item_of ?hits = map item_of ?chosen"
      by (simp add: hit_of_def item_of_def)
    have scores: "map score ?hits = map (\<lambda>r. Some (dist qv (vector r))) ?chosen"
      by (simp add: hit_of_def)
    have len: "length ?hits = min 10 (length ?F)"
      by (simp add: min.commute)
    have sub: "set ?chosen \<subseteq> set rows"
      by (auto dest!: in_set_takeD)
    have "sorted (map ?d (sort_key ?d ?F))"
      by simp
    then have srt: "sorted (map ?d ?chosen)"
      by (simp add: take_map [symmetric] sorted_wrt_take)
    have before: "\<forall>a j. a \<in> set rows \<and> matches_all (search_conds gt startDate endDate) a
                      \<and> j < length ?chosen \<and> ?d a < ?d (?chosen ! j)
                    \<longrightarrow> (\<exists>i<j. ?chosen ! i = a)"
    proof (intro allI impI)
      fix a j
      assume h: "a \<in> set rows \<and> matches_all (search_conds gt startDate endDate) a
                 \<and> j < length ?chosen \<and> ?d a < ?d (?chosen ! j)"
      from h have a: "a \<in> set ?F" by simp
      from h have j: "j < length ?chosen" by blast
      from h have lt: "?d a < ?d (?chosen ! j)" by blast
      show "\<exists>i<j. ?chosen ! i = a"
        by (rule nearest_before [OF a j lt])
    qed
    show ?thesis
      using reply log items scores len sub srt before by blast
  qed
  from atmost ranked show ?thesis
    by blast
qed

theorem search_ranks_by_distance_witness:
  "table ex_store = Some ex_rows \<and> embedder ex_store = Some ex_embed
   \<and> ''milk'' \<noteq> [] \<and> trim ''milk'' \<noteq> [] \<and> ex_embed ''milk'' = Inr [4, 0]
   \<and> snd (search_todos ex_dist iso_getTime ex_store ''milk'' None None)
       = \<lparr>success = True, error = None,
          payload = Some
            [\<lparr>todo_id = ''a1'', todo_text = ''buy milk'', timestamp = 1710374400000, score = Some 16\<rparr>,
             \<lparr>todo_id = ''c3'', todo_text = ''call dad'', timestamp = 1710633600000, score = Some 25\<rparr>,
             \<lparr>todo_id = ''b2'', todo_text = ''buy bread'', timestamp = 1710498600000, score = Some 26\<rparr>]\<rparr>"
proof -
  have t: "table ex_store = Some ex_rows" and e: "embedder ex_store = Some ex_embed"
    by (simp_all add: ex_store_def)
  have q1: "''milk'' \<noteq> []" by simp
  have q2: "trim ''milk'' \<noteq> []"
    by (simp add: trim_def js_whitespace_def)
  have v: "ex_embed ''milk'' = Inr [4, 0]"
    by (simp add: ex_embed_def)
  have r: "snd (search_todos ex_dist iso_getTime ex_store ''milk'' None None)
       = \<lparr>success = True, error = None,
          payload = Some
            [\<lparr>todo_id = ''a1'', todo_text = ''buy milk'', timestamp = 1710374400000, score = Some 16\<rparr>,
             \<lparr>todo_id = ''c3'', todo_text = ''call dad'', timestamp = 1710633600000, score = Some 25\<rparr>,
             \<lparr>todo_id = ''b2'', todo_text = ''buy bread'', timestamp = 1710498600000, score = Some 26\<rparr>]\<rparr>"
    by (simp add: search_todos_ready [OF t e q1 q2 v] search_conds_def nearest_def ex_rows_def
        ex_dist_def hit_of_def)
  note main = search_ranks_by_distance [OF t e, where dist = ex_dist and gt = iso_getTime
      and query = "''milk''" and qv = "[4, 0]" and startDate = None and endDate = None]
  from main t e q1 q2 v r show ?thesis
    by (intro conjI)
qed

lemma iso_getTime_day_span:
  assumes "iso_getTime (d @ ''T00:00:00.000Z'') = Some s"
  shows "iso_getTime (d @ ''T23:59:59.999Z'') = Some (s + 86399999) \<and> s mod 86400000 = 0"
proof -
  have len: "length d = 10"
    using assms by (simp add: iso_getTime_def split: if_splits)
  show ?thesis
    using assms len
    by (auto simp: iso_getTime_def nth_append digit_val_def MakeTime_def msPerDay_def
        split: option.splits if_splits)
qed

lemma iso_getTime_day_end:
  assumes "iso_getTime (d @ ''T23:59:59.999Z'') = Some t"
  shows "iso_getTime (d @ ''T00:00:00.000Z'') = Some (t - 86399999) \<and> t mod 86400000 = 86399999"
proof -
  have len: "length d = 10"
    using assms by (simp add: iso_getTime_def split: if_splits)
  show ?thesis
    using assms len
    by (auto simp: iso_getTime_def nth_append digit_val_def MakeTime_def msPerDay_def
        split: option.splits if_splits)
qed

lemma iso_getTime_2024_03_15:
  "iso_getTime (''2024-03-15'' @ ''T00:00:00.000Z'') = Some 1710460800000"
  "iso_getTime (''2024-03-15'' @ ''T23:59:59.999Z'') = Some 1710547199999"
  by (simp_all add: iso_getTime_def digit_val_def DaysInMonth_def InLeapYear_def MakeDay_def
      MakeTime_def DayFromYear_def DaysBeforeMonth_def msPerDay_def upt_rec)

lemma search_conds_cases:
  "search_conds gt None None = []"
  "sd \<noteq> [] \<Longrightarrow> gt (sd @ ''T00:00:00.000Z'') = Some a \<Longrightarrow> search_conds gt (Some sd) None = [TsGe a]"
  "ed \<noteq> [] \<Longrightarrow> gt (ed @ ''T23:59:59.999Z'') = Some b \<Longrightarrow> search_conds gt None (Some ed) = [TsLe b]"
  "sd \<noteq> [] \<Longrightarrow> gt (sd @ ''T00:00:00.000Z'') = Some a \<Longrightarrow> ed \<noteq> [] \<Longrightarrow>
     gt (ed @ ''T23:59:59.999Z'') = Some b \<Longrightarrow> search_conds gt (Some sd) (Some ed) = [TsGe a, TsLe b]"
  "gt (sd @ ''T00:00:00.000Z'') = None \<Longrightarrow> search_conds gt (Some sd) endDate = search_conds gt None endDate"
  "gt (ed @ ''T23:59:59.999Z'') = None \<Longrightarrow>
     search_conds gt startDate (Some ed) = search_conds gt startDate None"
  by (simp_all add: search_conds_def)

lemma search_filters_cases:
  "search_filters gt None None = []"
  "sd \<noteq> [] \<Longrightarrow> gt (sd @ ''T00:00:00.000Z'') = Some a \<Longrightarrow>
     search_filters gt (Some sd) None = [ge_filter a]"
  "ed \<noteq> [] \<Longrightarrow> gt (ed @ ''T23:59:59.999Z'') = Some b \<Longrightarrow>
     search_filters gt None (Some ed) = [le_filter b]"
  "sd \<noteq> [] \<Longrightarrow> gt (sd @ ''T00:00:00.000Z'') = Some a \<Longrightarrow> ed \<noteq> [] \<Longrightarrow>
     gt (ed @ ''T23:59:59.999Z'') = Some b \<Longrightarrow>
     search_filters gt (Some sd) (Some ed) = [ge_filter a, le_filter b]"
  "gt (sd @ ''T00:00:00.000Z'') = None \<Longrightarrow>
     search_filters gt (Some sd) endDate = search_filters gt None endDate"
  "gt (ed @ ''T23:59:59.999Z'') = None \<Longrightarrow>
     search_filters gt startDate (Some ed) = search_filters gt startDate None"
  by (auto simp: search_filters_def Let_def split: option.splits)

text \<open>
  Claim C6. On a ready store, for a query that is not blank and that the embedder
  accepts, and dates that the engine reads: the filter is \<^verbatim>\<open>timestamp >= startMs\<close> for a
  start date and \<^verbatim>\<open>timestamp <= endMs\<close> for an end date, joined by \<^verbatim>\<open> AND \<close> when both are
  given, and each is there only when its date is given. The search returns the ten
  nearest of the rows within both bounds, of the rows from \<open>startMs\<close> on when only the start
  date is given, of the rows up to \<open>endMs\<close> when only the end date is given, and of all rows
  without dates. Both bounds are inclusive: every returned row lies in the range, and when
  at most ten rows lie in it, exactly those rows are returned. For a date in the format
  of the standard, \<open>startMs\<close> is the first millisecond of the start date and \<open>endMs\<close> the
  last millisecond of the end date (UTC), so a single date spans its whole day.
\<close>

theorem search_date_bounds_inclusive:
  assumes "table st = Some rows" and "embedder st = Some e"
    and "query \<noteq> []" and "trim query \<noteq> []" and "e query = Inr qv"
    and "sd \<noteq> []" and "gt (sd @ ''T00:00:00.000Z'') = Some startMs"
    and "ed \<noteq> []" and "gt (ed @ ''T23:59:59.999Z'') = Some endMs"
  shows "search_filters gt (Some sd) (Some ed) = [ge_filter startMs, le_filter endMs]
       \<and> join '' AND '' (search_filters gt (Some sd) (Some ed))
           = ''timestamp >= '' @ string_of_int startMs @ '' AND timestamp <= ''
               @ string_of_int endMs
       \<and> search_filters gt (Some sd) None = [''timestamp >= '' @ string_of_int startMs]
       \<and> search_filters gt None (Some ed) = [''timestamp <= '' @ string_of_int endMs]
       \<and> search_filters gt None None = []
       \<and> snd (search_todos dist gt st query (Some sd) (Some ed))
           = \<lparr>success = True, error = None,
              payload = Some (map (hit_of dist qv)
                (take 10 (sort_key (\<lambda>r. dist qv (vector r))
                   (filter (\<lambda>r. startMs \<le> timestamp r \<and> timestamp r \<le> endMs) rows))))\<rparr>
       \<and> snd (search_todos dist gt st query (Some sd) None)
           = \<lparr>success = True, error = None,
              payload = Some (map (hit_of dist qv)
                (take 10 (sort_key (\<lambda>r. dist qv (vector r))
                   (filter (\<lambda>r. startMs \<le> timestamp r) rows))))\<rparr>
       \<and> snd (search_todos dist gt st query None (Some ed))
           = \<lparr>success = True, error = None,
              payload = Some (map (hit_of dist qv)
                (take 10 (sort_key (\<lambda>r. dist qv (vector r))
                   (filter (\<lambda>r. timestamp r \<le> endMs) rows))))\<rparr>
       \<and> snd (search_todos dist gt st query None None)
           = \<lparr>success = True, error = None,
              payload = Some (map (hit_of dist qv)
                (take 10 (sort_key (\<lambda>r. dist qv (vector r)) rows)))\<rparr>
       \<and> (\<forall>r \<in> set (take 10 (sort_key (\<lambda>r. dist qv (vector r))
                   (filter (\<lambda>r. startMs \<le> timestamp r \<and> timestamp r \<le> endMs) rows))).
             startMs \<le> timestamp r \<and> timestamp r \<le> endMs)
       \<and> (length (filter (\<lambda>r. startMs \<le> timestamp r \<and> timestamp r \<le> endMs) rows) \<le> 10 \<longrightarrow>
             set (take 10 (sort_key (\<lambda>r. dist qv (vector r))
                   (filter (\<lambda>r. startMs \<le> timestamp r \<and> timestamp r \<le> endMs) rows)))
               = {r \<in> set rows. startMs \<le> timestamp r \<and> timestamp r \<le> endMs})
       \<and> (iso_conformant gt \<and> iso_getTime (sd @ ''T00:00:00.000Z'') \<noteq> None \<longrightarrow>
             startMs mod 86400000 = 0
           \<and> gt (sd @ ''T23:59:59.999Z'') = Some (startMs + 86399999))
       \<and> (iso_conformant gt \<and> iso_getTime (ed @ ''T23:59:59.999Z'') \<noteq> None \<longrightarrow>
             endMs mod 86400000 = 86399999
           \<and> gt (ed @ ''T00:00:00.000Z'') = Some (endMs - 86399999))"
proof -
  note f = search_filters_cases(1) [of gt]
    search_filters_cases(2) [where gt = gt and sd = sd and a = startMs, OF assms(6,7)]
    search_filters_cases(3) [where gt = gt and ed = ed and b = endMs, OF assms(8,9)]
    search_filters_cases(4) [where gt = gt and sd = sd and a = startMs and ed = ed
      and b = endMs, OF assms(6,7,8,9)]
  note c = search_conds_cases(1) [of gt]
    search_conds_cases(2) [where gt = gt and sd = sd and a = startMs, OF assms(6,7)]
    search_conds_cases(3) [where gt = gt and ed = ed and b = endMs, OF assms(8,9)]
    search_conds_cases(4) [where gt = gt and sd = sd and a = startMs and ed = ed
      and b = endMs, OF assms(6,7,8,9)]
  note s = search_todos_ready [OF assms(1-5), of dist gt]
  have m2: "matches_all [TsGe startMs, TsLe endMs]
              = (\<lambda>r::'a row. startMs \<le> timestamp r \<and> timestamp r \<le> endMs)"
    and m1: "matches_all [TsGe startMs] = (\<lambda>r::'a row. startMs \<le> timestamp r)"
    and m0: "matches_all [TsLe endMs] = (\<lambda>r::'a row. timestamp r \<le> endMs)"
    by (rule ext, simp add: matches_all_def)+
  have f1: "search_filters gt (Some sd) (Some ed) = [ge_filter startMs, le_filter endMs]"
    by (rule f(4))
  have f2: "join '' AND '' (search_filters gt (Some sd) (Some ed))
           = ''timestamp >= '' @ string_of_int startMs @ '' AND timestamp <= ''
               @ string_of_int endMs"
    by (simp add: f(4) ge_filter_def le_filter_def)
  have f3: "search_filters gt (Some sd) None = [''timestamp >= '' @ string_of_int startMs]"
    by (simp add: f(2) ge_filter_def)
  have f4: "search_filters gt None (Some ed) = [''timestamp <= '' @ string_of_int endMs]"
    by (simp add: f(3) le_filter_def)
  have r1: "snd (search_todos dist gt st query (Some sd) (Some ed))
           = \<lparr>success = True, error = None,
              payload = Some (map (hit_of dist qv)
                (take 10 (sort_key (\<lambda>r. dist qv (vector r))
                   (filter (\<lambda>r. startMs \<le> timestamp r \<and> timestamp r \<le> endMs) rows))))\<rparr>"
    by (simp add: s c(4) nearest_def m2)
  have r2: "snd (search_todos dist gt st query (Some sd) None)
           = \<lparr>success = True, error = None,
              payload = Some (map (hit_of dist qv)
                (take 10 (sort_key (\<lambda>r. dist qv (vector r))
                   (filter (\<lambda>r. startMs \<le> timestamp r) rows))))\<rparr>"
    by (simp add: s c(2) nearest_def m1)
  have r3: "snd (search_todos dist gt st query None (Some ed))
           = \<lparr>success = True, error = None,
              payload = Some (map (hit_of dist qv)
                (take 10 (sort_key (\<lambda>r. dist qv (vector r))
                   (filter (\<lambda>r. timestamp r \<le> endMs) rows))))\<rparr>"
    by (simp add: s c(3) nearest_def m0)
  have r4: "snd (search_todos dist gt st query None None)
           = \<lparr>success = True, error = None,
              payload = Some (map (hit_of dist qv)
                (take 10 (sort_key (\<lambda>r. dist qv (vector r)) rows)))\<rparr>"
    by (simp add: s c(1) nearest_def)
  have inside: "\<forall>r \<in> set (take 10 (sort_key (\<lambda>r. dist qv (vector r))
                   (filter (\<lambda>r. startMs \<le> timestamp r \<and> timestamp r \<le> endMs) rows))).
             startMs \<le> timestamp r \<and> timestamp r \<le> endMs"
    by (auto dest!: in_set_takeD)
  have all: "length (filter (\<lambda>r. startMs \<le> timestamp r \<and> timestamp r \<le> endMs) rows) \<le> 10 \<longrightarrow>
             set (take 10 (sort_key (\<lambda>r. dist qv (vector r))
                   (filter (\<lambda>r. startMs \<le> timestamp r \<and> timestamp r \<le> endMs) rows)))
               = {r \<in> set rows. startMs \<le> timestamp r \<and> timestamp r \<le> endMs}"
    by auto
  have start: "startMs mod 86400000 = 0 \<and> gt (sd @ ''T23:59:59.999Z'') = Some (startMs + 86399999)"
    if "iso_conformant gt" and "iso_getTime (sd @ ''T00:00:00.000Z'') \<noteq> None"
  proof -
    from that(2) obtain s0 where s0: "iso_getTime (sd @ ''T00:00:00.000Z'') = Some s0"
      by auto
    with that(1) assms(7) have "s0 = startMs"
      by (simp add: iso_conformant_def)
    with iso_getTime_day_span [OF s0] that(1) show ?thesis
      by (simp add: iso_conformant_def)
  qed
  have stop: "endMs mod 86400000 = 86399999 \<and> gt (ed @ ''T00:00:00.000Z'') = Some (endMs - 86399999)"
    if "iso_conformant gt" and "iso_getTime (ed @ ''T23:59:59.999Z'') \<noteq> None"
  proof -
    from that(2) obtain t0 where t0: "iso_getTime (ed @ ''T23:59:59.999Z'') = Some t0"
      by auto
    with that(1) assms(9) have "t0 = endMs"
      by (simp add: iso_conformant_def)
    with iso_getTime_day_end [OF t0] that(1) show ?thesis
      by (simp add: iso_conformant_def)
  qed
  from f1 f2 f3 f4 f(1) r1 r2 r3 r4 inside all start stop show ?thesis
    by (intro conjI impI) blast+
qed

theorem search_date_bounds_inclusive_witness:
  "table ex_day_store = Some ex_day_rows \<and> embedder ex_day_store = Some ex_embed
   \<and> ''milk'' \<noteq> [] \<and> trim ''milk'' \<noteq> [] \<and> ex_embed ''milk'' = Inr [4, 0]
   \<and> ''2024-03-15'' \<noteq> []
   \<and> iso_conformant iso_getTime
   \<and> iso_getTime (''2024-03-15'' @ ''T00:00:00.000Z'') = Some 1710460800000
   \<and> iso_getTime (''2024-03-15'' @ ''T23:59:59.999Z'') = Some 1710547199999
   \<and> map timestamp ex_day_rows = [1710460799999, 1710547199999, 1710547200000]
   \<and> join '' AND '' (search_filters iso_getTime (Some ''2024-03-15'') (Some ''2024-03-15''))
       = ''timestamp >= 1710460800000 AND timestamp <= 1710547199999''
   \<and> snd (search_todos ex_dist iso_getTime ex_day_store ''milk''
            (Some ''2024-03-15'') (Some ''2024-03-15''))
       = \<lparr>success = True, error = None,
          payload = Some
            [\<lparr>todo_id = ''d2'', todo_text = ''buy bread'', timestamp = 1710547199999,
              score = Some 26\<rparr>]\<rparr>"
proof -
  have t: "table ex_day_store = Some ex_day_rows"
    and e: "embedder ex_day_store = Some ex_embed"
    by (simp_all add: ex_day_store_def)
  have q1: "''milk'' \<noteq> []" by simp
  have q2: "trim ''milk'' \<noteq> []"
    by (simp add: trim_def js_whitespace_def)
  have v: "ex_embed ''milk'' = Inr [4, 0]"
    by (simp add: ex_embed_def)
  have n: "''2024-03-15'' \<noteq> []" by simp
  have ic: "iso_conformant iso_getTime"
    by (simp add: iso_conformant_def)
  note d = iso_getTime_2024_03_15
  have ts: "map timestamp ex_day_rows = [1710460799999, 1710547199999, 1710547200000]"
    by (simp add: ex_day_rows_def)
  have chosen: "take 10 (sort_key (\<lambda>r. ex_dist [4, 0] (vector r))
          (filter (\<lambda>r. 1710460800000 \<le> timestamp r \<and> timestamp r \<le> 1710547199999) ex_day_rows))
        = [\<lparr>todo_id = ''d2'', todo_text = ''buy bread'', timestamp = 1710547199999, vector = [9, 1]\<rparr>]"
    by (simp add: ex_day_rows_def)
  have h: "hit_of ex_dist [4, 0]
             \<lparr>todo_id = ''d2'', todo_text = ''buy bread'', timestamp = 1710547199999, vector = [9, 1]\<rparr>
           = \<lparr>todo_id = ''d2'', todo_text = ''buy bread'', timestamp = 1710547199999, score = Some 26\<rparr>"
    by (simp add: hit_of_def ex_dist_def)
  have s1: "string_of_int 1710460800000 = ''1710460800000''"
    and s2: "string_of_int 1710547199999 = ''1710547199999''"
    by (simp_all add: string_of_int_def string_of_nat.simps digit_char_def)
  note main = search_date_bounds_inclusive [where gt = iso_getTime and dist = ex_dist,
      OF t e q1 q2 v n d(1) n d(2)]
  from main have "join '' AND '' (search_filters iso_getTime (Some ''2024-03-15'') (Some ''2024-03-15''))
       = ''timestamp >= '' @ string_of_int 1710460800000 @ '' AND timestamp <= ''
           @ string_of_int 1710547199999"
    by blast
  then have f: "join '' AND '' (search_filters iso_getTime (Some ''2024-03-15'') (Some ''2024-03-15''))
       = ''timestamp >= 1710460800000 AND timestamp <= 1710547199999''"
    by (simp only: s1 s2) simp
  from main have "snd (search_todos ex_dist iso_getTime ex_day_store ''milk''
            (Some ''2024-03-15'') (Some ''2024-03-15''))
       = \<lparr>success = True, error = None,
              payload = Some (map (hit_of ex_dist [4, 0])
                (take 10 (sort_key (\<lambda>r. ex_dist [4, 0] (vector r))
                   (filter (\<lambda>r. 1710460800000 \<le> timestamp r \<and> timestamp r \<le> 1710547199999)
                      ex_day_rows))))\<rparr>"
    by blast
  then have r: "snd (search_todos ex_dist iso_getTime ex_day_store ''milk''
            (Some ''2024-03-15'') (Some ''2024-03-15''))
       = \<lparr>success = True, error = None,
          payload = Some
            [\<lparr>todo_id = ''d2'', todo_text = ''buy bread'', timestamp = 1710547199999,
              score = Some 26\<rparr>]\<rparr>"
    by (simp only: chosen h list.map)
  from t e q1 q2 v n ic d ts f r show ?thesis
    by (intro conjI)
qed

text \<open>
  Claim C10. On a ready store, for a query that is not blank and that the embedder
  accepts, \<^verbatim>\<open>search-todos\<close> succeeds whatever the date arguments are. A start date whose
  timestamp is NaN adds nothing to the filter: alone it leaves the search over all rows,
  and beside an end date that the engine reads the filter is \<^verbatim>\<open>timestamp <= endMs\<close> alone
  and the search returns the ten nearest of the rows up to \<open>endMs\<close>. Likewise an end date
  whose timestamp is NaN: alone it leaves the search over all rows, and beside a start date
  that the engine reads the search returns the ten nearest of the rows from \<open>startMs\<close> on.
  In each case the search is the one made without the unreadable date.
\<close>

theorem search_unparseable_date_ignored:
  assumes "table st = Some rows" and "embedder st = Some e"
    and "query \<noteq> []" and "trim query \<noteq> []" and "e query = Inr qv"
  shows "success (snd (search_todos dist gt st query startDate endDate))
       \<and> (gt (sd @ ''T00:00:00.000Z'') = None \<longrightarrow>
            search_filters gt (Some sd) endDate = search_filters gt None endDate
          \<and> search_todos dist gt st query (Some sd) endDate
              = search_todos dist gt st query None endDate
          \<and> search_filters gt (Some sd) None = []
          \<and> snd (search_todos dist gt st query (Some sd) None)
              = \<lparr>success = True, error = None,
                 payload = Some (map (hit_of dist qv)
                   (take 10 (sort_key (\<lambda>r. dist qv (vector r)) rows)))\<rparr>
          \<and> (ed \<noteq> [] \<and> gt (ed @ ''T23:59:59.999Z'') = Some endMs \<longrightarrow>
                search_filters gt (Some sd) (Some ed) = [''timestamp <= '' @ string_of_int endMs]
              \<and> snd (search_todos dist gt st query (Some sd) (Some ed))
                  = \<lparr>success = True, error = None,
                     payload = Some (map (hit_of dist qv)
                       (take 10 (sort_key (\<lambda>r. dist qv (vector r))
                          (filter (\<lambda>r. timestamp r \<le> endMs) rows))))\<rparr>))
       \<and> (gt (ed @ ''T23:59:59.999Z'') = None \<longrightarrow>
            search_filters gt startDate (Some ed) = search_filters gt startDate None
          \<and> search_todos dist gt st query startDate (Some ed)
              = search_todos dist gt st query startDate None
          \<and> search_filters gt None (Some ed) = []
          \<and> snd (search_todos dist gt st query None (Some ed))
              = \<lparr>success = True, error = None,
                 payload = Some (map (hit_of dist qv)
                   (take 10 (sort_key (\<lambda>r. dist qv (vector r)) rows)))\<rparr>
          \<and> (sd \<noteq> [] \<and> gt (sd @ ''T00:00:00.000Z'') = Some startMs \<longrightarrow>
                search_filters gt (Some sd) (Some ed) = [''timestamp >= '' @ string_of_int startMs]
              \<and> snd (search_todos dist gt st query (Some sd) (Some ed))
                  = \<lparr>success = True, error = None,
                     payload = Some (map (hit_of dist qv)
                       (take 10 (sort_key (\<lambda>r. dist qv (vector r))
                          (filter (\<lambda>r. startMs \<le> timestamp r) rows))))\<rparr>))"
proof -
  note s = search_todos_ready [OF assms, of dist gt]
  have m1: "matches_all [TsGe startMs] = (\<lambda>r::'a row. startMs \<le> timestamp r)"
    and m0: "matches_all [TsLe endMs] = (\<lambda>r::'a row. timestamp r \<le> endMs)"
    by (rule ext, simp add: matches_all_def)+
  have ok: "success (snd (search_todos dist gt st query startDate endDate))"
    by (simp add: s)
  have all: "snd (search_todos dist gt st query None None)
              = \<lparr>success = True, error = None,
                 payload = Some (map (hit_of dist qv)
                   (take 10 (sort_key (\<lambda>r. dist qv (vector r)) rows)))\<rparr>"
    by (simp add: s search_conds_cases(1) nearest_def)
  have a: "search_filters gt (Some sd) endDate = search_filters gt None endDate
          \<and> search_todos dist gt st query (Some sd) endDate
              = search_todos dist gt st query None endDate
          \<and> search_filters gt (Some sd) None = []
          \<and> snd (search_todos dist gt st query (Some sd) None)
              = \<lparr>success = True, error = None,
                 payload = Some (map (hit_of dist qv)
                   (take 10 (sort_key (\<lambda>r. dist qv (vector r)) rows)))\<rparr>
          \<and> (ed \<noteq> [] \<and> gt (ed @ ''T23:59:59.999Z'') = Some endMs \<longrightarrow>
                search_filters gt (Some sd) (Some ed) = [''timestamp <= '' @ string_of_int endMs]
              \<and> snd (search_todos dist gt st query (Some sd) (Some ed))
                  = \<lparr>success = True, error = None,
                     payload = Some (map (hit_of dist qv)
                       (take 10 (sort_key (\<lambda>r. dist qv (vector r))
                          (filter (\<lambda>r. timestamp r \<le> endMs) rows))))\<rparr>)"
    if nan: "gt (sd @ ''T00:00:00.000Z'') = None"
  proof -
    note f = search_filters_cases(5) [where gt = gt and sd = sd, OF nan]
    note c = search_conds_cases(5) [where gt = gt and sd = sd, OF nan]
    have 1: "search_filters gt (Some sd) endDate = search_filters gt None endDate"
      by (rule f)
    have 2: "search_todos dist gt st query (Some sd) endDate
              = search_todos dist gt st query None endDate"
      unfolding search_todos_def f ..
    have 3: "search_filters gt (Some sd) None = []"
      by (simp add: f search_filters_cases(1))
    have 4: "snd (search_todos dist gt st query (Some sd) None)
              = \<lparr>success = True, error = None,
                 payload = Some (map (hit_of dist qv)
                   (take 10 (sort_key (\<lambda>r. dist qv (vector r)) rows)))\<rparr>"
      by (simp add: s c search_conds_cases(1) nearest_def)
    have 5: "search_filters gt (Some sd) (Some ed) = [''timestamp <= '' @ string_of_int endMs]
              \<and> snd (search_todos dist gt st query (Some sd) (Some ed))
                  = \<lparr>success = True, error = None,
                     payload = Some (map (hit_of dist qv)
                       (take 10 (sort_key (\<lambda>r. dist qv (vector r))
                          (filter (\<lambda>r. timestamp r \<le> endMs) rows))))\<rparr>"
      if e1: "ed \<noteq> []" and e2: "gt (ed @ ''T23:59:59.999Z'') = Some endMs"
      using search_filters_cases(3) [where gt = gt and ed = ed and b = endMs, OF e1 e2]
        search_conds_cases(3) [where gt = gt and ed = ed and b = endMs, OF e1 e2]
      by (simp add: f c s nearest_def m0 le_filter_def)
    from 1 2 3 4 5 show ?thesis
      by blast
  qed
  have b: "search_filters gt startDate (Some ed) = search_filters gt startDate None
          \<and> search_todos dist gt st query startDate (Some ed)
              = search_todos dist gt st query startDate None
          \<and> search_filters gt None (Some ed) = []
          \<and> snd (search_todos dist gt st query None (Some ed))
              = \<lparr>success = True, error = None,
                 payload = Some (map (hit_of dist qv)
                   (take 10 (sort_key (\<lambda>r. dist qv (vector r)) rows)))\<rparr>
          \<and> (sd \<noteq> [] \<and> gt (sd @ ''T00:00:00.000Z'') = Some startMs \<longrightarrow>
                search_filters gt (Some sd) (Some ed) = [''timestamp >= '' @ string_of_int startMs]
              \<and> snd (search_todos dist gt st query (Some sd) (Some ed))
                  = \<lparr>success = True, error = None,
                     payload = Some (map (hit_of dist qv)
                       (take 10 (sort_key (\<lambda>r. dist qv (vector r))
                          (filter (\<lambda>r. startMs \<le> timestamp r) rows))))\<rparr>)"
    if nan: "gt (ed @ ''T23:59:59.999Z'') = None"
  proof -
    note f = search_filters_cases(6) [where gt = gt and ed = ed, OF nan]
    note c = search_conds_cases(6) [where gt = gt and ed = ed, OF nan]
    have 1: "search_filters gt startDate (Some ed) = search_filters gt startDate None"
      by (rule f)
    have 2: "search_todos dist gt st query startDate (Some ed)
              = search_todos dist gt st query startDate None"
      unfolding search_todos_def f ..
    have 3: "search_filters gt None (Some ed) = []"
      by (simp add: f search_filters_cases(1))
    have 4: "snd (search_todos dist gt st query None (Some ed))
              = \<lparr>success = True, error = None,
                 payload = Some (map (hit_of dist qv)
                   (take 10 (sort_key (\<lambda>r. dist qv (vector r)) rows)))\<rparr>"
      by (simp add: s c search_conds_cases(1) nearest_def)
    have 5: "search_filters gt (Some sd) (Some ed) = [''timestamp >= '' @ string_of_int startMs]
              \<and> snd (search_todos dist gt st query (Some sd) (Some ed))
                  = \<lparr>success = True, error = None,
                     payload = Some (map (hit_of dist qv)
                       (take 10 (sort_key (\<lambda>r. dist qv (vector r))
                          (filter (\<lambda>r. startMs \<le> timestamp r) rows))))\<rparr>"
      if s1: "sd \<noteq> []" and s2: "gt (sd @ ''T00:00:00.000Z'') = Some startMs"
      using search_filters_cases(2) [where gt = gt and sd = sd and a = startMs, OF s1 s2]
        search_conds_cases(2) [where gt = gt and sd = sd and a = startMs, OF s1 s2]
      by (simp add: f c s nearest_def m1 ge_filter_def)
    from 1 2 3 4 5 show ?thesis
      by blast
  qed
  from ok a b show ?thesis
    by blast
qed

theorem search_unparseable_date_ignored_witness:
  "table ex_day_store = Some ex_day_rows \<and> embedder ex_day_store = Some ex_embed
   \<and> ''milk'' \<noteq> [] \<and> trim ''milk'' \<noteq> [] \<and> ex_embed ''milk'' = Inr [4, 0]
   \<and> ''2024-03-15'' \<noteq> []
   \<and> iso_getTime (''tomorrow'' @ ''T00:00:00.000Z'') = None
   \<and> iso_getTime (''next week'' @ ''T23:59:59.999Z'') = None
   \<and> iso_getTime (''2024-03-15'' @ ''T00:00:00.000Z'') = Some 1710460800000
   \<and> iso_getTime (''2024-03-15'' @ ''T23:59:59.999Z'') = Some 1710547199999
   \<and> search_filters iso_getTime (Some ''tomorrow'') (Some ''2024-03-15'')
       = [''timestamp <= 1710547199999'']
   \<and> snd (search_todos ex_dist iso_getTime ex_day_store ''milk''
            (Some ''tomorrow'') (Some ''2024-03-15''))
       = \<lparr>success = True, error = None,
          payload = Some
            [\<lparr>todo_id = ''d1'', todo_text = ''buy milk'', timestamp = 1710460799999,
              score = Some 16\<rparr>,
             \<lparr>todo_id = ''d2'', todo_text = ''buy bread'', timestamp = 1710547199999,
              score = Some 26\<rparr>]\<rparr>
   \<and> search_filters iso_getTime (Some ''2024-03-15'') (Some ''next week'')
       = [''timestamp >= 1710460800000'']
   \<and> snd (search_todos ex_dist iso_getTime ex_day_store ''milk''
            (Some ''2024-03-15'') (Some ''next week''))
       = \<lparr>success = True, error = None,
          payload = Some
            [\<lparr>todo_id = ''d3'', todo_text = ''call dad'', timestamp = 1710547200000,
              score = Some 25\<rparr>,
             \<lparr>todo_id = ''d2'', todo_text = ''buy bread'', timestamp = 1710547199999,
              score = Some 26\<rparr>]\<rparr>
   \<and> snd (search_todos ex_dist iso_getTime ex_day_store ''milk'' (Some ''tomorrow'') None)
       = \<lparr>success = True, error = None,
          payload = Some
            [\<lparr>todo_id = ''d1'', todo_text = ''buy milk'', timestamp = 1710460799999,
              score = Some 16\<rparr>,
             \<lparr>todo_id = ''d3'', todo_text = ''call dad'', timestamp = 1710547200000,
              score = Some 25\<rparr>,
             \<lparr>todo_id = ''d2'', todo_text = ''buy bread'', timestamp = 1710547199999,
              score = Some 26\<rparr>]\<rparr>"
proof -
  have t: "table ex_day_store = Some ex_day_rows"
    and e: "embedder ex_day_store = Some ex_embed"
    by (simp_all add: ex_day_store_def)
  have q1: "''milk'' \<noteq> []" by simp
  have q2: "trim ''milk'' \<noteq> []"
    by (simp add: trim_def js_whitespace_def)
  have v: "ex_embed ''milk'' = Inr [4, 0]"
    by (simp add: ex_embed_def)
  have n: "''2024-03-15'' \<noteq> []" by simp
  have nan1: "iso_getTime (''tomorrow'' @ ''T00:00:00.000Z'') = None"
    by (simp add: iso_getTime_def)
  have nan2: "iso_getTime (''next week'' @ ''T23:59:59.999Z'') = None"
    by (simp add: iso_getTime_def)
  note d = iso_getTime_2024_03_15
  have s1: "string_of_int 1710460800000 = ''1710460800000''"
    and s2: "string_of_int 1710547199999 = ''1710547199999''"
    by (simp_all add: string_of_int_def string_of_nat.simps digit_char_def)
  have h: "map (hit_of ex_dist [4, 0])
             (take 10 (sort_key (\<lambda>r. ex_dist [4, 0] (vector r))
                (filter (\<lambda>r. timestamp r \<le> 1710547199999) ex_day_rows)))
           = [\<lparr>todo_id = ''d1'', todo_text = ''buy milk'', timestamp = 1710460799999,
               score = Some 16\<rparr>,
              \<lparr>todo_id = ''d2'', todo_text = ''buy bread'', timestamp = 1710547199999,
               score = Some 26\<rparr>]"
    by (simp add: ex_day_rows_def hit_of_def ex_dist_def)
  have h': "map (hit_of ex_dist [4, 0])
             (take 10 (sort_key (\<lambda>r. ex_dist [4, 0] (vector r))
                (filter (\<lambda>r. 1710460800000 \<le> timestamp r) ex_day_rows)))
           = [\<lparr>todo_id = ''d3'', todo_text = ''call dad'', timestamp = 1710547200000,
               score = Some 25\<rparr>,
              \<lparr>todo_id = ''d2'', todo_text = ''buy bread'', timestamp = 1710547199999,
               score = Some 26\<rparr>]"
    by (simp add: ex_day_rows_def hit_of_def ex_dist_def)
  have h'': "map (hit_of ex_dist [4, 0])
             (take 10 (sort_key (\<lambda>r. ex_dist [4, 0] (vector r)) ex_day_rows))
           = [\<lparr>todo_id = ''d1'', todo_text = ''buy milk'', timestamp = 1710460799999,
               score = Some 16\<rparr>,
              \<lparr>todo_id = ''d3'', todo_text = ''call dad'', timestamp = 1710547200000,
               score = Some 25\<rparr>,
              \<lparr>todo_id = ''d2'', todo_text = ''buy bread'', timestamp = 1710547199999,
               score = Some 26\<rparr>]"
    by (simp add: ex_day_rows_def hit_of_def ex_dist_def)
  note main1 = search_unparseable_date_ignored [where gt = iso_getTime and dist = ex_dist
      and sd = "''tomorrow''" and ed = "''2024-03-15''" and endMs = 1710547199999,
      OF t e q1 q2 v]
  note main2 = search_unparseable_date_ignored [where gt = iso_getTime and dist = ex_dist
      and sd = "''2024-03-15''" and ed = "''next week''" and startMs = 1710460800000,
      OF t e q1 q2 v]
  from main1 nan1 n d(2)
  have "search_filters iso_getTime (Some ''tomorrow'') (Some ''2024-03-15'')
       = [''timestamp <= '' @ string_of_int 1710547199999]"
    by blast
  then have f1: "search_filters iso_getTime (Some ''tomorrow'') (Some ''2024-03-15'')
       = [''timestamp <= 1710547199999'']"
    by (simp only: s2) simp
  from main1 nan1 n d(2)
  have "snd (search_todos ex_dist iso_getTime ex_day_store ''milk''
            (Some ''tomorrow'') (Some ''2024-03-15''))
       = \<lparr>success = True, error = None,
          payload = Some (map (hit_of ex_dist [4, 0])
             (take 10 (sort_key (\<lambda>r. ex_dist [4, 0] (vector r))
                (filter (\<lambda>r. timestamp r \<le> 1710547199999) ex_day_rows))))\<rparr>"
    by blast
  then have r1: "snd (search_todos ex_dist iso_getTime ex_day_store ''milk''
            (Some ''tomorrow'') (Some ''2024-03-15''))
       = \<lparr>success = True, error = None,
          payload = Some
            [\<lparr>todo_id = ''d1'', todo_text = ''buy milk'', timestamp = 1710460799999,
              score = Some 16\<rparr>,
             \<lparr>todo_id = ''d2'', todo_text = ''buy bread'', timestamp = 1710547199999,
              score = Some 26\<rparr>]\<rparr>"
    by (simp only: h)
  from main2 nan2 n d(1)
  have "search_filters iso_getTime (Some ''2024-03-15'') (Some ''next week'')
       = [''timestamp >= '' @ string_of_int 1710460800000]"
    by blast
  then have f2: "search_filters iso_getTime (Some ''2024-03-15'') (Some ''next week'')
       = [''timestamp >= 1710460800000'']"
    by (simp only: s1) simp
  from main2 nan2 n d(1)
  have "snd (search_todos ex_dist iso_getTime ex_day_store ''milk''
            (Some ''2024-03-15'') (Some ''next week''))
       = \<lparr>success = True, error = None,
          payload = Some (map (hit_of ex_dist [4, 0])
             (take 10 (sort_key (\<lambda>r. ex_dist [4, 0] (vector r))
                (filter (\<lambda>r. 1710460800000 \<le> timestamp r) ex_day_rows))))\<rparr>"
    by blast
  then have r2: "snd (search_todos ex_dist iso_getTime ex_day_store ''milk''
            (Some ''2024-03-15'') (Some ''next week''))
       = \<lparr>success = True, error = None,
          payload = Some
            [\<lparr>todo_id = ''d3'', todo_text = ''call dad'', timestamp = 1710547200000,
              score = Some 25\<rparr>,
             \<lparr>todo_id = ''d2'', todo_text = ''buy bread'', timestamp = 1710547199999,
              score = Some 26\<rparr>]\<rparr>"
    by (simp only: h')
  from main1 nan1
  have "snd (search_todos ex_dist iso_getTime ex_day_store ''milk'' (Some ''tomorrow'') None)
       = \<lparr>success = True, error = None,
          payload = Some (map (hit_of ex_dist [4, 0])
             (take 10 (sort_key (\<lambda>r. ex_dist [4, 0] (vector r)) ex_day_rows)))\<rparr>"
    by blast
  then have r3: "snd (search_todos ex_dist iso_getTime ex_day_store ''milk''
            (Some ''tomorrow'') None)
       = \<lparr>success = True, error = None,
          payload = Some
            [\<lparr>todo_id = ''d1'', todo_text = ''buy milk'', timestamp = 1710460799999,
              score = Some 16\<rparr>,
             \<lparr>todo_id = ''d3'', todo_text = ''call dad'', timestamp = 1710547200000,
              score = Some 25\<rparr>,
             \<lparr>todo_id = ''d2'', todo_text = ''buy bread'', timestamp = 1710547199999,
              score = Some 26\<rparr>]\<rparr>"
    by (simp only: h'')
  from t e q1 q2 v n nan1 nan2 d f1 r1 f2 r2 r3 show ?thesis
    by (intro conjI)
qed

section \<open>List\<close>

lemma add_todo_payload:
  "payload (snd (add_todo st now newId txt)) = None
   \<or> payload (snd (add_todo st now newId txt))
       = Some \<lparr>todo_id = newId, todo_text = txt, timestamp = now\<rparr>"
  by (auto simp: add_todo_def getEmbedding_def Let_def tbl_add_def
      split: option.splits sum.splits)

lemma update_todo_payload:
  "payload (snd (update_todo st now i txt)) = None
   \<or> payload (snd (update_todo st now i txt))
       = Some \<lparr>todo_id = i, todo_text = txt, timestamp = now\<rparr>"
  by (auto simp: update_todo_def getEmbedding_def Let_def tbl_add_def
      split: option.splits sum.splits)

lemma search_todos_hits_from_rows:
  assumes "table st = Some rows"
    and "payload (snd (search_todos dist gt st q sd ed)) = Some hits" and "h \<in> set hits"
  shows "\<exists>r \<in> set rows. item_of h = item_of r"
proof -
  have "set res
          \<subseteq> (\<lambda>r. select_cols (map_option (\<lambda>v. dist v (vector r)) (qvector qu)) r) ` set rows"
    if "q_execute dist rows qu = Inr res" for qu res
    using that
    by (auto simp: q_execute_def Let_def split: option.splits sum.splits dest!: in_set_takeD)
  then have "\<exists>r \<in> set rows. item_of x = item_of r"
    if "q_execute dist rows qu = Inr res" and "x \<in> set res" for x qu res
    using that by (fastforce simp: select_cols_def item_of_def)
  then show ?thesis
    using assms
    by (auto simp: search_todos_def getEmbedding_def Let_def item_of_def
        split: option.splits sum.splits if_splits)
qed

text \<open>
  Claim C3. On a ready store, \<^verbatim>\<open>get-todos\<close> returns at most 500 records, the stripped
  rows of the scan, sorted by timestamp with the newest first. No reply carries a vector:
  the list is the same for any table with the same ids, texts and timestamps, the item that
  add and update return consists of the id, the text and the timestamp they were given, and
  a search hit adds only the score to the id, text and timestamp of a stored row.
\<close>

theorem get_todos_sorted_without_vectors:
  assumes "table st = Some rows"
  shows "(\<exists>todos. snd (get_todos dist st) = \<lparr>success = True, error = None, payload = Some todos\<rparr>
            \<and> length todos \<le> 500
            \<and> length todos = min 500 (length rows)
            \<and> set todos = item_of ` set (take 500 rows)
            \<and> sorted_wrt (\<lambda>a b. timestamp b \<le> timestamp a) todos)
       \<and> (\<forall>rows'. map item_of rows' = map item_of rows \<longrightarrow>
             snd (get_todos dist (st\<lparr>table := Some rows'\<rparr>)) = snd (get_todos dist st))
       \<and> (payload (snd (add_todo st now newId txt)) = None
           \<or> payload (snd (add_todo st now newId txt))
               = Some \<lparr>todo_id = newId, todo_text = txt, timestamp = now\<rparr>)
       \<and> (payload (snd (update_todo st now i txt)) = None
           \<or> payload (snd (update_todo st now i txt))
               = Some \<lparr>todo_id = i, todo_text = txt, timestamp = now\<rparr>)
       \<and> (\<forall>hits. payload (snd (search_todos dist gt st q sd ed)) = Some hits \<longrightarrow>
             (\<forall>h \<in> set hits. \<exists>r \<in> set rows. item_of h = item_of r))"
proof -
  let ?todos = "sort_key (\<lambda>t. - timestamp t) (map item_of (take 500 rows))"
  have reply: "snd (get_todos dist st) = \<lparr>success = True, error = None, payload = Some ?todos\<rparr>"
    using assms by (simp add: get_todos_ready)
  have len: "length ?todos = min 500 (length rows)"
    by (simp add: min.commute)
  have elems: "set ?todos = item_of ` set (take 500 rows)"
    by simp
  have "sorted (map (\<lambda>t. - timestamp t) ?todos)"
    by (rule sorted_sort_key)
  then have srt: "sorted_wrt (\<lambda>a b. timestamp b \<le> timestamp a) ?todos"
    by (simp add: sorted_map)
  have indep: "snd (get_todos dist (st\<lparr>table := Some rows'\<rparr>)) = snd (get_todos dist st)"
    if "map item_of rows' = map item_of rows" for rows' :: "'a row list"
  proof -
    have "map item_of (take 500 rows') = map item_of (take 500 rows)"
      using that by (simp add: take_map [symmetric])
    then show ?thesis
      using assms by (simp add: get_todos_ready)
  qed
  have hits: "\<forall>hits. payload (snd (search_todos dist gt st q sd ed)) = Some hits \<longrightarrow>
                (\<forall>h \<in> set hits. \<exists>r \<in> set rows. item_of h = item_of r)"
    using search_todos_hits_from_rows [OF assms] by blast
  from len have len500: "length ?todos \<le> 500"
    by simp
  note a = add_todo_payload [of st now newId "txt"]
  note u = update_todo_payload [of st now i "txt"]
  show ?thesis
    using reply len len500 elems srt indep hits a u
    by blast
qed

theorem get_todos_sorted_without_vectors_witness:
  "table ex_store = Some ex_rows
   \<and> snd (get_todos ex_dist ex_store)
       = \<lparr>success = True, error = None,
          payload = Some [\<lparr>todo_id = ''c3'', todo_text = ''call dad'', timestamp = 1710633600000\<rparr>,
                          \<lparr>todo_id = ''b2'', todo_text = ''buy bread'', timestamp = 1710498600000\<rparr>,
                          \<lparr>todo_id = ''a1'', todo_text = ''buy milk'', timestamp = 1710374400000\<rparr>]\<rparr>"
proof -
  have t: "table ex_store = Some ex_rows"
    by (simp add: ex_store_def)
  note main = get_todos_sorted_without_vectors [OF t, of ex_dist]
  have r: "snd (get_todos ex_dist ex_store)
       = \<lparr>success = True, error = None,
          payload = Some [\<lparr>todo_id = ''c3'', todo_text = ''call dad'', timestamp = 1710633600000\<rparr>,
                          \<lparr>todo_id = ''b2'', todo_text = ''buy bread'', timestamp = 1710498600000\<rparr>,
                          \<lparr>todo_id = ''a1'', todo_text = ''buy milk'', timestamp = 1710374400000\<rparr>]\<rparr>"
    by (simp add: get_todos_ready [OF t] ex_rows_def item_of_def)
  from main t r show ?thesis
    by (intro conjI)
qed


section \<open>The initialization gate\<close>

lemma seed_loop_keeps:
  "seed_loop st rnd i n acc = (st', res) \<Longrightarrow>
   table st' = table st \<and> embedder st' = embedder st \<and> nanoidFn st' = nanoidFn st"
proof (induction n arbitrary: st i acc)
  case 0
  then show ?case by simp
next
  case (Suc n)
  show ?case
  proof (cases "getEmbedding st (demo_text i (keyword (rnd i)))")
    case (Pair st1 r)
    then have keep: "table st1 = table st \<and> embedder st1 = embedder st \<and> nanoidFn st1 = nanoidFn st"
      by (auto simp: getEmbedding_def split: option.splits)
    show ?thesis
    proof (cases r)
      case (Inl m)
      with Pair Suc.prems keep show ?thesis by (simp add: Let_def)
    next
      case (Inr v)
      with Pair Suc.prems have "seed_loop st1 rnd (Suc i) n
          (acc @ [\<lparr>todo_id = drawn_id (rnd i), todo_text = demo_text i (keyword (rnd i)),
                    timestamp = past_time (rnd i), vector = v\<rparr>]) = (st', res)"
        by (simp add: Let_def)
      from Suc.IH [OF this] keep show ?thesis by simp
    qed
  qed
qed

lemma seed_loop_error:
  "seed_loop st rnd i n acc = (st', Inl m) \<Longrightarrow> embedder st = Some e \<Longrightarrow> \<exists>t. e t = Inl m"
proof (induction n arbitrary: st i acc)
  case 0
  then show ?case by simp
next
  case (Suc n)
  let ?t = "demo_text i (keyword (rnd i))"
  have g: "getEmbedding st ?t = (st\<lparr>calls := calls st @ [Embed ?t]\<rparr>, e ?t)"
    using Suc.prems(2) by (rule getEmbedding_ready)
  show ?case
  proof (cases "e ?t")
    case (Inl m')
    with g Suc.prems(1) have "m' = m" by (simp add: Let_def)
    with Inl show ?thesis by blast
  next
    case (Inr v)
    with g Suc.prems(1) have "seed_loop (st\<lparr>calls := calls st @ [Embed ?t]\<rparr>) rnd (Suc i) n
          (acc @ [\<lparr>todo_id = drawn_id (rnd i), todo_text = ?t,
                    timestamp = past_time (rnd i), vector = v\<rparr>]) = (st', Inl m)"
      by (simp add: Let_def)
    from Suc.IH [OF this] Suc.prems(2) show ?thesis by simp
  qed
qed

text \<open>While the table handle is unassigned every handler answers with a not-initialized
  failure and leaves the store alone; add, search and update do so too while the embedder
  handle is unassigned.\<close>

lemma handle_not_ready:
  assumes "table st = None"
  shows "fst (handle dist gt st rq) = st \<and> not_ready (snd (handle dist gt st rq))"
  using assms
  by (cases rq)
    (simp_all add: add_todo_def get_todos_def search_todos_def update_todo_def delete_todo_def
      seed_demo_data_def not_ready_def not_initialized_messages_def)

lemma handle_needs_embedder:
  assumes "embedder st = None" and "rq = Add now i t \<or> rq = Search q sd ed \<or> rq = Update now i t"
  shows "fst (handle dist gt st rq) = st \<and> not_ready (snd (handle dist gt st rq))"
  using assms
  by (auto simp: add_todo_def search_todos_def update_todo_def not_ready_def
      not_initialized_messages_def split: option.splits)

text \<open>No handler clears a handle.\<close>

lemma handle_keeps_handles:
  "(table (fst (handle dist gt st rq)) = None \<longleftrightarrow> table st = None)
   \<and> embedder (fst (handle dist gt st rq)) = embedder st
   \<and> nanoidFn (fst (handle dist gt st rq)) = nanoidFn st"
proof (cases rq)
  case (Seed rnd)
  obtain st1 res where sl: "seed_loop st rnd 0 100 [] = (st1, res)"
    by (cases "seed_loop st rnd 0 100 []")
  from seed_loop_keeps [OF sl] sl Seed show ?thesis
    by (auto simp: seed_demo_data_def Let_def tbl_add_def split: option.splits sum.splits)
qed (auto simp: add_todo_def get_todos_def search_todos_def update_todo_def delete_todo_def
      getEmbedding_def Let_def tbl_add_def split: option.splits sum.splits)

lemma run_keeps_handles:
  "(table (fst (run dist gt st rqs)) = None \<longleftrightarrow> table st = None)
   \<and> embedder (fst (run dist gt st rqs)) = embedder st
   \<and> nanoidFn (fst (run dist gt st rqs)) = nanoidFn st"
proof (induction rqs arbitrary: st)
  case Nil
  then show ?case by simp
next
  case (Cons rq rqs)
  obtain st1 r where s: "handle dist gt st rq = (st1, r)"
    by (cases "handle dist gt st rq")
  with handle_keeps_handles [of dist gt st rq] Cons.IH [of st1] show ?case
    by (cases "run dist gt st1 rqs") auto
qed

text \<open>Once the table, the embedder and nanoid are assigned, no reply is a not-initialized
  failure, the embedding library not failing with one of those very messages.\<close>

lemma handle_ready:
  assumes "table st \<noteq> None" and "embedder st = Some e" and "nanoidFn st"
    and "\<forall>t m. e t = Inl m \<longrightarrow> m \<notin> set not_initialized_messages"
  shows "\<not> not_ready (snd (handle dist gt st rq))"
proof -
  from assms(1) obtain rows where t: "table st = Some rows"
    by auto
  have inv: "invalid_filter \<notin> set not_initialized_messages"
    by (simp add: invalid_filter_def not_initialized_messages_def)
  have emb: "m \<notin> set not_initialized_messages" if "e x = Inl m" for x m
    using assms(4) that by blast
  show ?thesis
  proof (cases rq)
    case (Add now newId x)
    with t assms(2) emb show ?thesis
      by (auto simp: add_todo_def getEmbedding_ready Let_def tbl_add_def not_ready_def
          split: sum.splits)
  next
    case List
    with t show ?thesis
      by (simp add: get_todos_ready not_ready_def)
  next
    case (Search q sd ed)
    show ?thesis
    proof (cases "q = [] \<or> trim q = []")
      case True
      with Search t assms(2) show ?thesis
        by (auto simp: search_todos_def not_ready_def)
    next
      case False
      then have q: "q \<noteq> []" "trim q \<noteq> []" by simp_all
      show ?thesis
      proof (cases "e q")
        case (Inl m)
        with emb have "m \<notin> set not_initialized_messages" by blast
        with Search t assms(2) q Inl show ?thesis
          by (simp add: search_todos_embed_fails not_ready_def)
      next
        case (Inr v)
        with Search t assms(2) q show ?thesis
          by (simp add: search_todos_ready not_ready_def)
      qed
    qed
  next
    case (Update now i x)
    with t assms(2) emb inv show ?thesis
      by (auto simp: update_todo_def getEmbedding_ready Let_def tbl_add_def tbl_delete_def
          not_ready_def split: sum.splits option.splits)
  next
    case (Delete i)
    with t inv show ?thesis
      by (auto simp: delete_todo_def Let_def tbl_delete_def not_ready_def
          split: sum.splits option.splits)
  next
    case (Seed rnd)
    obtain st1 res where sl: "seed_loop st rnd 0 100 [] = (st1, res)"
      by (cases "seed_loop st rnd 0 100 []")
    show ?thesis
    proof (cases res)
      case (Inl m)
      with sl assms(2) have "\<exists>t. e t = Inl m"
        by (auto dest: seed_loop_error)
      with emb have "m \<notin> set not_initialized_messages" by blast
      with Seed t assms(2,3) sl Inl show ?thesis
        by (simp add: seed_demo_data_def not_ready_def)
    next
      case (Inr demo)
      with Seed t assms(2,3) sl show ?thesis
        by (simp add: seed_demo_data_def not_ready_def tbl_add_def)
    qed
  qed
qed

lemma run_ready:
  assumes "table st \<noteq> None" and "embedder st = Some e" and "nanoidFn st"
    and "\<forall>t m. e t = Inl m \<longrightarrow> m \<notin> set not_initialized_messages"
  shows "\<forall>r \<in> set (snd (run dist gt st rqs)). \<not> not_ready r"
  using assms(1-3)
proof (induction rqs arbitrary: st)
  case Nil
  then show ?case by simp
next
  case (Cons rq rqs)
  note h = handle_ready [OF Cons.prems assms(4), of dist gt rq]
  note k = handle_keeps_handles [of dist gt st rq]
  obtain st1 r where s: "handle dist gt st rq = (st1, r)"
    by (cases "handle dist gt st rq")
  with h k Cons.prems have "table st1 \<noteq> None" "embedder st1 = Some e" "nanoidFn st1" "\<not> not_ready r"
    by simp_all
  with Cons.IH [of st1] s show ?case
    by (cases "run dist gt st1 rqs") auto
qed

text \<open>\<^verbatim>\<open>initializeApp\<close> assigns nanoid and the embedder before the table. A failure at any
  step but the delete of the dummy record leaves the table handle unassigned; the table
  handle is assigned after a failure only on a data directory without the table, when
  \<^verbatim>\<open>createTable\<close> succeeded and the delete of the dummy record threw.\<close>

lemma initializeApp_order:
  "table (fst (initializeApp store0 io now w)) \<noteq> None \<Longrightarrow>
   embedder (fst (initializeApp store0 io now w)) \<noteq> None
   \<and> nanoidFn (fst (initializeApp store0 io now w))"
  by (auto simp: initializeApp_def store0_def Let_def split: option.splits sum.splits)

lemma initializeApp_failure_gated:
  assumes "snd (initializeApp store0 io now True) = Some (InitializationError m)"
    and "table (fst (initializeApp store0 io now True)) \<noteq> None"
  shows "disk io = None \<and> createTable_error io = None
       \<and> table (fst (initializeApp store0 io now True)) = Some (dummyData now)"
  using assms
  by (auto simp: initializeApp_def store0_def Let_def send_def split: option.splits sum.splits)

lemma initializeApp_success_ready:
  assumes "snd (initializeApp store0 io now True) = Some InitializationSuccess"
  shows "table (fst (initializeApp store0 io now True)) \<noteq> None
       \<and> embedder (fst (initializeApp store0 io now True)) \<noteq> None
       \<and> nanoidFn (fst (initializeApp store0 io now True))"
  using assms
  by (auto simp: initializeApp_def store0_def Let_def send_def split: option.splits sum.splits)

text \<open>
  Claim C8. The claim does not hold of the code on a new data directory. There
  \<^verbatim>\<open>initializeApp\<close> assigns the table handle when \<^verbatim>\<open>createTable\<close> returns, before the
  dummy record is deleted. When that delete throws, initialization has not completed: the
  window is sent \<^verbatim>\<open>initialization-error\<close>. Yet \<^verbatim>\<open>get-todos\<close> does not answer with the
  not-initialized failure: it succeeds and lists the dummy record, and \<^verbatim>\<open>delete-todo\<close>
  succeeds as well. When instead \<^verbatim>\<open>createTable\<close> itself throws, the table handle stays
  unassigned and \<^verbatim>\<open>get-todos\<close> answers with the not-initialized failure, as the claim says.
\<close>

theorem served_after_failed_initialization:
  "initializeApp (store0 :: int store) ex_io_delete_fails 1710000000000 True
     = (\<lparr>table = Some (dummyData 1710000000000), embedder = Some ex_flaky_embed,
         nanoidFn = True, calls = [TableDelete]\<rparr>,
        Some (InitializationError ''delete failed''))
   \<and> snd (get_todos ex_dist
            (fst (initializeApp (store0 :: int store) ex_io_delete_fails 1710000000000 True)))
       = \<lparr>success = True, error = None,
          payload = Some [\<lparr>todo_id = ''dummy_id_init'', todo_text = ''dummy_text_init'',
                           timestamp = 1710000000000\<rparr>]\<rparr>
   \<and> \<not> not_ready (snd (handle ex_dist iso_getTime
            (fst (initializeApp (store0 :: int store) ex_io_delete_fails 1710000000000 True))
            List))
   \<and> snd (delete_todo
            (fst (initializeApp (store0 :: int store) ex_io_delete_fails 1710000000000 True))
            ''a1'')
       = \<lparr>success = True, error = None, payload = Some ''a1''\<rparr>
   \<and> initializeApp (store0 :: int store) ex_io_create_fails 1710000000000 True
       = (\<lparr>table = None, embedder = Some ex_flaky_embed, nanoidFn = True, calls = []\<rparr>,
          Some (InitializationError ''create failed''))
   \<and> snd (get_todos ex_dist
            (fst (initializeApp (store0 :: int store) ex_io_create_fails 1710000000000 True)))
       = \<lparr>success = False, error = Some ''Database not initialized.'', payload = Some []\<rparr>"
proof -
  let ?s = "\<lparr>table = Some (dummyData 1710000000000), embedder = Some ex_flaky_embed,
              nanoidFn = True, calls = [TableDelete]\<rparr> :: int store"
  have i: "initializeApp (store0 :: int store) ex_io_delete_fails 1710000000000 True
      = (?s, Some (InitializationError ''delete failed''))"
    by (simp add: initializeApp_def ex_io_delete_fails_def ex_io_def store0_def send_def)
  have t: "table ?s = Some (dummyData 1710000000000)"
    by simp
  have l: "snd (get_todos ex_dist ?s)
       = \<lparr>success = True, error = None,
          payload = Some [\<lparr>todo_id = ''dummy_id_init'', todo_text = ''dummy_text_init'',
                           timestamp = 1710000000000\<rparr>]\<rparr>"
    by (simp only: get_todos_ready [OF t]) (simp add: dummyData_def item_of_def)
  have h: "\<not> not_ready (snd (handle ex_dist iso_getTime ?s List))"
    by (simp add: get_todos_ready [OF t] not_ready_def)
  have d: "snd (delete_todo ?s ''a1'') = \<lparr>success = True, error = None, payload = Some ''a1''\<rparr>"
    by (simp add: delete_todo_ready [OF t])
  have c: "initializeApp (store0 :: int store) ex_io_create_fails 1710000000000 True
       = (\<lparr>table = None, embedder = Some ex_flaky_embed, nanoidFn = True, calls = []\<rparr>,
          Some (InitializationError ''create failed''))"
    by (simp add: initializeApp_def ex_io_create_fails_def ex_io_def store0_def send_def)
  have g: "snd (get_todos ex_dist
              (\<lparr>table = None, embedder = Some ex_flaky_embed, nanoidFn = True, calls = []\<rparr>
                :: int store))
       = \<lparr>success = False, error = Some ''Database not initialized.'', payload = Some []\<rparr>"
    by (simp add: get_todos_def)
  from i l h d c g show ?thesis
    by (simp only: fst_conv) simp
qed

section \<open>Texts of stored records\<close>

lemma demo_text_nonempty: "demo_text i kw \<noteq> []"
  by (simp add: demo_text_def)

lemma seed_loop_texts:
  "seed_loop st rnd i n acc = (st', Inr rows) \<Longrightarrow> [] \<notin> todo_text ` set acc \<Longrightarrow>
   [] \<notin> todo_text ` set rows"
proof (induction n arbitrary: st i acc)
  case 0
  then show ?case by simp
next
  case (Suc n)
  let ?t = "demo_text i (keyword (rnd i))"
  obtain st1 r where g: "getEmbedding st ?t = (st1, r)"
    by (cases "getEmbedding st ?t")
  show ?case
  proof (cases r)
    case (Inl m)
    with g Suc.prems(1) show ?thesis by (simp add: Let_def)
  next
    case (Inr v)
    let ?acc = "acc @ [\<lparr>todo_id = drawn_id (rnd i), todo_text = ?t,
                         timestamp = past_time (rnd i), vector = v\<rparr>]"
    from Inr g Suc.prems(1) have "seed_loop st1 rnd (Suc i) n ?acc = (st', Inr rows)"
      by (simp add: Let_def)
    moreover have "[] \<notin> todo_text ` set ?acc"
      using Suc.prems(2) demo_text_nonempty [of i "keyword (rnd i)"] by auto
    ultimately show ?thesis by (rule Suc.IH)
  qed
qed

lemma add_todo_table:
  "table (fst (add_todo st now i x)) = table st
   \<or> (\<exists>rows v. table st = Some rows
        \<and> table (fst (add_todo st now i x))
            = Some (rows @ [\<lparr>todo_id = i, todo_text = x, timestamp = now, vector = v\<rparr>]))"
  by (auto simp: add_todo_def getEmbedding_def Let_def tbl_add_def
      split: option.splits sum.splits)

lemma tbl_delete_subset: "tbl_delete rows f = Inr rows1 \<Longrightarrow> set rows1 \<subseteq> set rows"
  by (auto simp: tbl_delete_def split: option.splits)

lemma update_todo_table:
  "table (fst (update_todo st now i x)) = table st
   \<or> (\<exists>rows rows1 v. table st = Some rows \<and> set rows1 \<subseteq> set rows
        \<and> table (fst (update_todo st now i x))
            = Some (rows1 @ [\<lparr>todo_id = i, todo_text = x, timestamp = now, vector = v\<rparr>]))"
proof (cases "table st")
  case None
  then show ?thesis by (simp add: update_todo_def)
next
  case (Some rows)
  show ?thesis
  proof (cases "tbl_delete rows (id_filter i)")
    case (Inl m)
    with Some show ?thesis
      by (auto simp: update_todo_def getEmbedding_def Let_def split: option.splits sum.splits)
  next
    case (Inr rows1)
    then have "set rows1 \<subseteq> set rows"
      by (rule tbl_delete_subset)
    with Some Inr show ?thesis
      by (auto simp: update_todo_def getEmbedding_def Let_def tbl_add_def
          split: option.splits sum.splits)
  qed
qed

lemma delete_todo_table:
  "table (fst (delete_todo st i)) = table st
   \<or> (\<exists>rows rows1. table st = Some rows \<and> set rows1 \<subseteq> set rows
        \<and> table (fst (delete_todo st i)) = Some rows1)"
proof (cases "table st")
  case None
  then show ?thesis by (simp add: delete_todo_def)
next
  case (Some rows)
  show ?thesis
  proof (cases "tbl_delete rows (id_filter i)")
    case (Inl m)
    with Some show ?thesis
      by (simp add: delete_todo_def Let_def)
  next
    case (Inr rows1)
    then have "set rows1 \<subseteq> set rows"
      by (rule tbl_delete_subset)
    with Some Inr show ?thesis
      by (simp add: delete_todo_def Let_def)
  qed
qed

lemma seed_demo_data_table:
  "table (fst (seed_demo_data st rnd)) = table st
   \<or> (\<exists>rows demo. table st = Some rows \<and> [] \<notin> todo_text ` set demo
        \<and> table (fst (seed_demo_data st rnd)) = Some (rows @ demo))"
proof -
  obtain st1 res where sl: "seed_loop st rnd 0 100 [] = (st1, res)"
    by (cases "seed_loop st rnd 0 100 []")
  note keep = seed_loop_keeps [OF sl]
  show ?thesis
  proof (cases res)
    case (Inl m)
    with sl keep show ?thesis
      by (simp add: seed_demo_data_def Let_def split: option.splits)
  next
    case (Inr demo)
    with sl have "[] \<notin> todo_text ` set demo"
      by (auto dest: seed_loop_texts)
    with Inr sl keep show ?thesis
      by (auto simp: seed_demo_data_def Let_def tbl_add_def split: option.splits)
  qed
qed

lemma ui_step_texts:
  assumes "texts_nonempty st"
  shows "texts_nonempty (ui_step st ev)"
proof (cases ev)
  case (AddClick now newId v)
  show ?thesis
  proof (cases "trim v = []")
    case True
    with AddClick assms show ?thesis by (simp add: add_click_def)
  next
    case False
    with AddClick assms add_todo_table [of st now newId "trim v"] show ?thesis
      by (auto simp: add_click_def Let_def texts_nonempty_def)
  qed
next
  case (UpdateClick now ed v orig)
  show ?thesis
  proof (cases "fst (update_click st now ed v orig) = st")
    case True
    with UpdateClick assms show ?thesis by simp
  next
    case False
    then have "trim v \<noteq> []"
      and "fst (update_click st now ed v orig) = fst (update_todo st now ed (trim v))"
      by (auto simp: update_click_def Let_def split: if_splits)
    with UpdateClick assms update_todo_table [of st now ed "trim v"] show ?thesis
      by (fastforce simp: texts_nonempty_def)
  qed
next
  case (DeleteClick ed c i)
  with assms delete_todo_table [of st i] show ?thesis
    by (fastforce simp: handleDeleteTodo_def texts_nonempty_def split: option.splits)
next
  case (SeedClick ed c rnd)
  with assms seed_demo_data_table [of st rnd] show ?thesis
    by (auto simp: seed_click_def texts_nonempty_def)
qed

lemma dummy_delete:
  "tbl_delete (dummyData now) (id_filter ''dummy_id_init'') = Inr []"
  by (simp add: tbl_delete_id dummyData_def)

lemma initializeApp_texts:
  assumes "\<forall>rows. disk io = Some rows \<longrightarrow> [] \<notin> todo_text ` set rows"
  shows "texts_nonempty (fst (initializeApp store0 io now w))"
  using assms
  by (auto simp: initializeApp_def store0_def Let_def texts_nonempty_def dummy_delete
      split: option.splits sum.splits)
    (simp add: dummyData_def)

lemma app_reachable_texts: "app_reachable st \<Longrightarrow> texts_nonempty st"
proof (induction rule: app_reachable.induct)
  case (first_start io now w)
  then show ?case by (simp add: initializeApp_texts)
next
  case (user_action st ev)
  then show ?case by (simp add: ui_step_texts)
next
  case (restart st rows io now w)
  then have "[] \<notin> todo_text ` set rows"
    by (simp add: texts_nonempty_def)
  with restart show ?case by (simp add: initializeApp_texts)
qed

text \<open>
  Claim C9. In every store the application reaches, no stored record has an empty text.
  Empty submissions are rejected by the renderer before any request is sent: its add and
  update buttons trim the input and send nothing when the result is empty. (The guard is
  the renderer's: the handlers \<^verbatim>\<open>add-todo\<close> and \<^verbatim>\<open>update-todo\<close> store the text they are
  given.)
\<close>

theorem stored_texts_nonempty:
  "(app_reachable st \<and> table st = Some rows \<and> r \<in> set rows \<longrightarrow> todo_text r \<noteq> [])
   \<and> (trim v = [] \<longrightarrow>
        add_click s now newId v = (s, None) \<and> update_click s now ed v orig = (s, None))"
proof -
  have "todo_text r \<noteq> []" if "app_reachable st" "table st = Some rows" "r \<in> set rows"
    using app_reachable_texts [OF that(1)] that(2,3)
    by (force simp: texts_nonempty_def image_iff)
  moreover have "add_click s now newId v = (s, None) \<and> update_click s now ed v orig = (s, None)"
    if "trim v = []"
    using that by (simp add: add_click_def update_click_def)
  ultimately show ?thesis by blast
qed

theorem stored_texts_nonempty_witness:
  "app_reachable
     (ui_step (fst (initializeApp store0 ex_io 1710000000000 True))
        (AddClick 1710700000000 ''n1'' ''  buy milk ''))
   \<and> table (ui_step (fst (initializeApp store0 ex_io 1710000000000 True))
              (AddClick 1710700000000 ''n1'' ''  buy milk ''))
       = Some [\<lparr>todo_id = ''n1'', todo_text = ''buy milk'', timestamp = 1710700000000,
                 vector = [8, 0]\<rparr>]
   \<and> todo_text \<lparr>todo_id = ''n1'', todo_text = ''buy milk'', timestamp = 1710700000000,
                 vector = [8, 0 :: int]\<rparr> \<noteq> []
   \<and> trim ''   '' = []
   \<and> ui_step (ui_step (fst (initializeApp store0 ex_io 1710000000000 True))
                 (AddClick 1710700000000 ''n1'' ''  buy milk ''))
        (AddClick 1710700000001 ''n2'' ''   '')
       = ui_step (fst (initializeApp store0 ex_io 1710000000000 True))
           (AddClick 1710700000000 ''n1'' ''  buy milk '')"
proof -
  let ?s1 = "fst (initializeApp store0 ex_io 1710000000000 True)"
  let ?s2 = "ui_step ?s1 (AddClick 1710700000000 ''n1'' ''  buy milk '')"
  let ?row = "\<lparr>todo_id = ''n1'', todo_text = ''buy milk'', timestamp = 1710700000000,
                vector = [8, 0 :: int]\<rparr>"
  have "disk ex_io = None"
    by (simp add: ex_io_def)
  then have "app_reachable ?s1"
    by (rule app_reachable.first_start)
  then have reach: "app_reachable ?s2"
    by (rule app_reachable.user_action)
  have s1: "?s1 = \<lparr>table = Some [], embedder = Some ex_flaky_embed, nanoidFn = True,
                   calls = [TableDelete]\<rparr>"
    by (simp add: initializeApp_def ex_io_def store0_def dummy_delete send_def)
  have tr: "trim ''  buy milk '' = ''buy milk''"
    by (simp add: trim_def js_whitespace_def)
  have em: "ex_flaky_embed ''buy milk'' = Inr [8, 0]"
    by (simp add: ex_flaky_embed_def ex_embed_def)
  have tab: "table ?s2 = Some [?row]"
    by (simp add: s1 add_click_def tr add_todo_def getEmbedding_def em tbl_add_def Let_def)
  have blank: "trim ''   '' = []"
    by (simp add: trim_def js_whitespace_def)
  note main = stored_texts_nonempty [where st = ?s2 and rows = "[?row]" and r = ?row
      and v = "''   ''" and s = ?s2 and now = 1710700000001 and newId = "''n2''"]
  from main reach tab have ne: "todo_text ?row \<noteq> []"
    by simp
  from main blank have "add_click ?s2 1710700000001 ''n2'' ''   '' = (?s2, None)"
    by blast
  then have same: "ui_step ?s2 (AddClick 1710700000001 ''n2'' ''   '') = ?s2"
    by simp
  from reach tab ne blank same show ?thesis
    by (intro conjI)
qed

text \<open>
  The handler itself has no such guard: called directly with the empty text on a ready
  store, \<^verbatim>\<open>add-todo\<close> stores a record whose text is empty.
\<close>

lemma add_todo_stores_given_text:
  "table (fst (add_todo ex_store 1710700000000 ''e0'' []))
     = Some (ex_rows @ [\<lparr>todo_id = ''e0'', todo_text = [], timestamp = 1710700000000,
                         vector = [0, 0]\<rparr>])"
proof -
  have t: "table ex_store = Some ex_rows" and e: "embedder ex_store = Some ex_embed"
    by (simp_all add: ex_store_def)
  have v: "ex_embed [] = Inr [0, 0]"
    by (simp add: ex_embed_def)
  show ?thesis
    by (simp add: add_todo_ready [OF t e v])
qed

end
